theory Spec2Isabelle
  imports Complex_Main
begin

section \<open>The authenticated request pipeline of the Skygear API client\<close>

text \<open>
  A shallow embedding of \<^verbatim>\<open>packages/skygear-core/src/client.ts\<close>: the endpoint
  derivation, the header preparer, \<^verbatim>\<open>fetch\<close> with its single refresh-and-retry,
  \<^verbatim>\<open>request\<close> with the envelope decoder, and the calls of the auth flow layer that
  shape payloads.

  JavaScript strings are modelled as \<^typ>\<open>string\<close>; a character stands for a code unit
  below 256. Exceptions and rejected promises are values of the type \<open>error\<close>, returned
  as \<open>Inl\<close>.
\<close>

subsection \<open>Values and errors\<close>

text \<open>
  A JavaScript value of the kind this client handles: what \<^verbatim>\<open>JSON.parse\<close> yields, plus
  \<^verbatim>\<open>undefined\<close>, which an object literal holds for an option the caller left out. An
  object is the list of its own properties in insertion order.
\<close>

datatype json =
    JUndefined
  | JNull
  | JBool bool
  | JNum rat
  | JStr string
  | JArr "json list"
  | JObj "(string \<times> json) list"

text \<open>
  \<^verbatim>\<open>new Error(message)\<close>, the \<^verbatim>\<open>TypeError\<close> of the runtime, and
  \<^verbatim>\<open>new SkygearError(message, name, reason, info)\<close>.
\<close>

datatype error =
    Error string
  | TypeError string
  | SkygearError string string string "json option"

text \<open>The truthiness of a value, as \<^verbatim>\<open>if (v)\<close> tests it.\<close>

fun truthy :: "json \<Rightarrow> bool" where
  "truthy JUndefined = False"
| "truthy JNull = False"
| "truthy (JBool b) = b"
| "truthy (JNum n) = (n \<noteq> 0)"
| "truthy (JStr s) = (s \<noteq> [])"
| "truthy (JArr xs) = True"
| "truthy (JObj kvs) = True"

text \<open>
  \<^verbatim>\<open>o[k] = v\<close> on an object, and \<^verbatim>\<open>headers.set(k, v)\<close>: an existing key keeps its
  place and takes the new value, a new key goes last.
\<close>

fun put :: "string \<Rightarrow> 'v \<Rightarrow> (string \<times> 'v) list \<Rightarrow> (string \<times> 'v) list" where
  "put k v [] = [(k, v)]"
| "put k v (p # ps) = (if fst p = k then (k, v) # ps else p # put k v ps)"

text \<open>
  \<^verbatim>\<open>v[k]\<close> for the property names this client reads (none of them is a member of a
  prototype): reading a property of \<^verbatim>\<open>undefined\<close> or \<^verbatim>\<open>null\<close> throws, a missing
  property reads as \<^verbatim>\<open>undefined\<close>.
\<close>

fun get_prop :: "json \<Rightarrow> string \<Rightarrow> error + json" where
  "get_prop JUndefined k = Inl (TypeError ''cannot read property of undefined'')"
| "get_prop JNull k = Inl (TypeError ''cannot read property of null'')"
| "get_prop (JObj kvs) k = (case map_of kvs k of Some v \<Rightarrow> Inr v | None \<Rightarrow> Inr JUndefined)"
| "get_prop v k = Inr JUndefined"

text \<open>
  \<^verbatim>\<open>JSON.stringify\<close>, given here by the value the written text denotes: a property
  whose value is \<^verbatim>\<open>undefined\<close> is left out, an \<^verbatim>\<open>undefined\<close> array element is
  written \<^verbatim>\<open>null\<close>, and \<^verbatim>\<open>JSON.stringify(undefined)\<close> is \<^verbatim>\<open>undefined\<close>.
\<close>

fun wire :: "json \<Rightarrow> json" where
  "wire (JArr xs) = JArr (map (\<lambda>x. if x = JUndefined then JNull else wire x) xs)"
| "wire (JObj kvs) =
     JObj (map (\<lambda>kv. (fst kv, wire (snd kv))) (filter (\<lambda>kv. snd kv \<noteq> JUndefined) kvs))"
| "wire v = v"

definition JSON_stringify :: "json \<Rightarrow> json option" where
  "JSON_stringify v = (if v = JUndefined then None else Some (wire v))"

subsection \<open>Endpoint derivation\<close>

text \<open>
  \<^verbatim>\<open>/^(http:\/\/|https:\/\/|\/\/)(.*)$/g\<close>: the dot matches any character but a line
  terminator (among the code units below 256, line feed and carriage return), and
  without the \<^verbatim>\<open>m\<close> flag the anchors are the ends of the string. A match is the
  pair of the two groups. The three alternatives exclude one another, so
  trying them in order is what the backtracking matcher does.
\<close>

definition lineTerminator :: "char \<Rightarrow> bool" where
  "lineTerminator ch = (ch = CHR 0x0A \<or> ch = CHR 0x0D)"

definition matchEndpoint :: "string \<Rightarrow> (string \<times> string) option" where
  "matchEndpoint s =
     (if take 7 s = ''http://'' \<and> \<not> list_ex lineTerminator (drop 7 s)
        then Some (''http://'', drop 7 s)
      else if take 8 s = ''https://'' \<and> \<not> list_ex lineTerminator (drop 8 s)
        then Some (''https://'', drop 8 s)
      else if take 2 s = ''//'' \<and> \<not> list_ex lineTerminator (drop 2 s)
        then Some (''//'', drop 2 s)
      else None)"

definition isDigit :: "char \<Rightarrow> bool" where
  "isDigit ch = (ch \<in> set ''0123456789'')"

definition digitVal :: "char \<Rightarrow> nat" where
  "digitVal ch = of_char ch - 48"

text \<open>
  The replacement patterns of \<^verbatim>\<open>String.prototype.replace\<close> (the abstract operation
  GetSubstitution of ECMAScript, for a pattern without named groups): \<^verbatim>\<open>$$\<close>,
  \<^verbatim>\<open>$&\<close>, \<^verbatim>\<open>$`\<close>, \<^verbatim>\<open>$'\<close>, \<^verbatim>\<open>$n\<close> and \<^verbatim>\<open>$nn\<close>. A two-digit
  reference beyond the number of groups is read again as a one-digit reference followed
  by a digit; a reference to no group stays as it is written.
\<close>

fun GetSubstitution :: "string \<Rightarrow> string \<Rightarrow> nat \<Rightarrow> string list \<Rightarrow> string \<Rightarrow> string" where
  "GetSubstitution matched str position captures [] = []"
| "GetSubstitution matched str position captures [c] = [c]"
| "GetSubstitution matched str position captures (c # x # t) =
     (if c \<noteq> CHR ''$'' then c # GetSubstitution matched str position captures (x # t)
      else if x = CHR ''$'' then CHR ''$'' # GetSubstitution matched str position captures t
      else if x = CHR 0x60 then take position str @ GetSubstitution matched str position captures t
      else if x = CHR ''&'' then matched @ GetSubstitution matched str position captures t
      else if x = CHR 0x27 then
        drop (min (position + length matched) (length str)) str
          @ GetSubstitution matched str position captures t
      else if isDigit x then
        (case t of
           y # t' \<Rightarrow>
             if isDigit y \<and> 10 * digitVal x + digitVal y \<le> length captures then
               (if 1 \<le> 10 * digitVal x + digitVal y
                  then captures ! (10 * digitVal x + digitVal y - 1)
                         @ GetSubstitution matched str position captures t'
                  else [c, x, y] @ GetSubstitution matched str position captures t')
             else if 1 \<le> digitVal x \<and> digitVal x \<le> length captures then
               captures ! (digitVal x - 1) @ GetSubstitution matched str position captures t
             else [c, x] @ GetSubstitution matched str position captures t
         | [] \<Rightarrow>
             if 1 \<le> digitVal x \<and> digitVal x \<le> length captures then captures ! (digitVal x - 1)
             else [c, x])
      else c # GetSubstitution matched str position captures (x # t))"

text \<open>
  \<^verbatim>\<open>s.replace(re, template)\<close> for the anchored pattern above: it matches the whole
  string at position 0 or not at all, so at most one replacement happens.
\<close>

definition replaceEndpoint :: "string \<Rightarrow> string \<Rightarrow> string" where
  "replaceEndpoint s template =
     (case matchEndpoint s of
        None \<Rightarrow> s
      | Some (p, rest) \<Rightarrow> GetSubstitution s s 0 [p, rest] template)"

definition gearEndpoint :: "string \<Rightarrow> string \<Rightarrow> error + string" where
  "gearEndpoint appEndpoint gearSubdomain =
     (let gearEndpoint' = replaceEndpoint appEndpoint (''$1'' @ gearSubdomain @ ''.$2'')
      in if gearEndpoint' = appEndpoint then Inl (Error ''invalid app endpoint'')
         else Inr gearEndpoint')"

subsection \<open>Requests, responses and the client\<close>

datatype http_method = GET | POST | DELETE

datatype request_mode = Cors | Navigate | NoCors | SameOrigin

datatype request_credentials = Include | Omit | SameOriginCredentials

text \<open>The \<^verbatim>\<open>RequestInit\<close> object that \<^verbatim>\<open>request\<close> hands to \<^verbatim>\<open>fetch\<close>.\<close>

record request_init =
  init_method :: http_method
  init_headers :: "(string \<times> string) list"
  init_mode :: request_mode
  init_credentials :: request_credentials
  init_body :: "json option"

text \<open>
  A \<^verbatim>\<open>Request\<close>. \<open>req_url\<close> is the url handed to the constructor. The header list
  is the \<^verbatim>\<open>Headers\<close> object: names in lower case, values normalized. The body is the
  JSON value the body text denotes, \<open>None\<close> when there is no body.
\<close>

record request =
  req_url :: string
  req_method :: http_method
  req_headers :: "(string \<times> string) list"
  req_mode :: request_mode
  req_credentials :: request_credentials
  req_body :: "json option"

text \<open>
  A \<^verbatim>\<open>Response\<close>: \<open>resp_headers r name\<close> is \<^verbatim>\<open>r.headers.get(name)\<close>, and
  \<open>json_body r\<close> is what \<^verbatim>\<open>r.json()\<close> resolves to, \<open>None\<close> when it rejects.
\<close>

record response =
  status :: int
  resp_headers :: "string \<Rightarrow> string option"
  json_body :: "json option"

record authentication_session =
  token :: string
  step :: string

text \<open>
  The fields of \<^verbatim>\<open>BaseAPIClient\<close> are split in two. The mutable state that the
  injected callbacks can write is the record \<open>world\<close>: \<^verbatim>\<open>_accessToken\<close>,
  \<^verbatim>\<open>_authenticationSession\<close>, and \<open>ext\<close>, everything outside the client that the
  transport and the callbacks see and change (the server, the token store). The
  configuration is the record \<open>client\<close>. A callback is a function of the world that
  resolves (\<open>Inr\<close>) or rejects (\<open>Inl\<close>) and leaves a new world. \<open>requestClass\<close> tells
  whether a request constructor is configured; the constructor is the \<^verbatim>\<open>Request\<close> of
  the Fetch standard, given below.
\<close>

record 'x world =
  accessToken :: "string option"
  authenticationSession :: "authentication_session option"
  ext :: 'x

record 'x client =
  apiKey :: string
  endpoint :: string
  authEndpoint :: string
  assetEndpoint :: string
  fetchFunction :: "(request \<Rightarrow> 'x world \<Rightarrow> (error + response) \<times> 'x world) option"
  requestClass :: bool
  refreshTokenFunction :: "('x world \<Rightarrow> (error + bool) \<times> 'x world) option"
  userAgent :: "string option"
  getExtraSessionInfo :: "('x world \<Rightarrow> (error + json) \<times> 'x world) option"

text \<open>
  The functions that \<^verbatim>\<open>client.ts\<close> imports from \<^verbatim>\<open>./error\<close>, \<^verbatim>\<open>./url\<close>,
  \<^verbatim>\<open>./base64\<close> and \<^verbatim>\<open>./encoding\<close>, files that are not among the sources, are
  parameters of the model, together with the text that \<^verbatim>\<open>JSON.stringify\<close> writes
  where that text is encoded further, and with two choices of the runtime that provides
  \<^verbatim>\<open>Request\<close>: \<open>validURL\<close>, whether its URL parser accepts a url (a runtime without a
  base URL refuses a relative one), and \<open>guarded\<close>, whether the \<^verbatim>\<open>Headers\<close> object of a
  request in a given mode silently ignores a header of a given name and value (the
  guard of the Fetch standard: forbidden names, and the safelist of the mode
  \<^verbatim>\<open>no-cors\<close>; a browser enforces it, a server runtime need not).
\<close>

record externals =
  decodeError :: "json option \<Rightarrow> error"
  encodeQuery :: "(string \<times> string) list \<Rightarrow> string"
  encodeBase64FromString :: "string \<Rightarrow> string"
  JSON_text :: "json \<Rightarrow> string"
  decodeAuthResponse :: "json \<Rightarrow> error + json"
  decodeAuthenticator :: "json \<Rightarrow> error + json"
  validURL :: "string \<Rightarrow> bool"
  guarded :: "request_mode \<Rightarrow> string \<Rightarrow> string \<Rightarrow> bool"

text \<open>
  What a call is observed to do: each invocation of the transport with the request it
  was given, and each invocation of the refresh capability, in order. A call yields
  its outcome, its events and the world it leaves.
\<close>

datatype event = Exchange request | RefreshCall

type_synonym ('a, 'x) result = "(error + 'a) \<times> event list \<times> 'x world"

definition outcome_of :: "('a, 'x) result \<Rightarrow> error + 'a" where
  "outcome_of r = fst r"

definition trace_of :: "('a, 'x) result \<Rightarrow> event list" where
  "trace_of r = fst (snd r)"

definition world_of :: "('a, 'x) result \<Rightarrow> 'x world" where
  "world_of r = snd (snd r)"

fun exchanges :: "event list \<Rightarrow> request list" where
  "exchanges [] = []"
| "exchanges (Exchange r # es) = r # exchanges es"
| "exchanges (RefreshCall # es) = exchanges es"

fun refreshCalls :: "event list \<Rightarrow> nat" where
  "refreshCalls [] = 0"
| "refreshCalls (Exchange r # es) = refreshCalls es"
| "refreshCalls (RefreshCall # es) = Suc (refreshCalls es)"

subsection \<open>Header preparer\<close>

text \<open>
  The access token is read before the extra-session-info supplier is awaited, so the
  header carries the token of the world in which \<open>prepareHeaders\<close> starts.
\<close>

definition prepareHeaders ::
  "externals \<Rightarrow> 'x client \<Rightarrow> 'x world \<Rightarrow> (error + (string \<times> string) list) \<times> 'x world" where
  "prepareHeaders d c w =
     (let headers = [(''x-skygear-api-key'', apiKey c)];
          headers = (case accessToken w of
                       Some t \<Rightarrow>
                         if t \<noteq> [] then put ''authorization'' (''bearer '' @ t) headers
                         else headers
                     | None \<Rightarrow> headers);
          headers = (case userAgent c of
                       Some ua \<Rightarrow> put ''user-agent'' ua headers
                     | None \<Rightarrow> headers)
      in case getExtraSessionInfo c of
           None \<Rightarrow> (Inr headers, w)
         | Some supplier \<Rightarrow>
             (case supplier w of
                (Inl e, w') \<Rightarrow> (Inl e, w')
              | (Inr extraSessionInfo, w') \<Rightarrow>
                  if truthy extraSessionInfo then
                    (Inr (put ''x-skygear-extra-info''
                            (encodeBase64FromString d (JSON_text d extraSessionInfo)) headers), w')
                  else (Inr headers, w')))"

subsection \<open>fetch: one exchange, and at most one retry after a refresh\<close>

definition shouldRefreshToken :: "response \<Rightarrow> bool" where
  "shouldRefreshToken r =
     (let h = resp_headers r ''x-skygear-try-refresh-token'' in h = Some ''true'')"

subsubsection \<open>The Headers and Request of the Fetch standard\<close>

text \<open>
  A header value is normalized by removing HTTP whitespace (tab, line feed, carriage
  return, space) from both ends; what is left must hold no NUL, line feed or carriage
  return. A header name is a non-empty token. Names are compared without regard to
  case; the list keeps them in lower case. A \<open>string\<close> is a list of 8-bit characters,
  so every name and value of the model is a byte string, which is what \<^verbatim>\<open>set\<close> and
  \<^verbatim>\<open>append\<close> accept; a JavaScript string with a code unit above \<^verbatim>\<open>0xFF\<close>, for which
  they throw a \<^verbatim>\<open>TypeError\<close>, has no counterpart here.
\<close>

definition isHTTPWhitespace :: "char \<Rightarrow> bool" where
  "isHTTPWhitespace ch = (ch = CHR 0x09 \<or> ch = CHR 0x0A \<or> ch = CHR 0x0D \<or> ch = CHR 0x20)"

definition normalizeValue :: "string \<Rightarrow> string" where
  "normalizeValue v = rev (dropWhile isHTTPWhitespace (rev (dropWhile isHTTPWhitespace v)))"

definition isHeaderValue :: "string \<Rightarrow> bool" where
  "isHeaderValue v = (\<not> list_ex (\<lambda>ch. ch = CHR 0x00 \<or> ch = CHR 0x0A \<or> ch = CHR 0x0D) v)"

definition isTokenChar :: "char \<Rightarrow> bool" where
  "isTokenChar ch =
     (ch \<in> set ''abcdefghijklmnopqrstuvwxyzABCDEFGHIJKLMNOPQRSTUVWXYZ0123456789!#$%&*+-.^_|~''
      \<or> ch = CHR 0x27 \<or> ch = CHR 0x60)"

definition isHeaderName :: "string \<Rightarrow> bool" where
  "isHeaderName n = (n \<noteq> [] \<and> list_all isTokenChar n)"

definition lowerChar :: "char \<Rightarrow> char" where
  "lowerChar ch =
     (case map_of (zip ''ABCDEFGHIJKLMNOPQRSTUVWXYZ'' ''abcdefghijklmnopqrstuvwxyz'') ch of
        Some l \<Rightarrow> l
      | None \<Rightarrow> ch)"

definition lowerName :: "string \<Rightarrow> string" where
  "lowerName n = map lowerChar n"

text \<open>
  What \<^verbatim>\<open>append\<close> and \<^verbatim>\<open>set\<close> do first: normalize the value, then throw a
  \<^verbatim>\<open>TypeError\<close> unless the name and the value are valid.
\<close>

definition headerPair :: "string \<Rightarrow> string \<Rightarrow> error + (string \<times> string)" where
  "headerPair name value =
     (let v = normalizeValue value
      in if \<not> isHeaderName name then Inl (TypeError ''invalid header name'')
         else if \<not> isHeaderValue v then Inl (TypeError ''invalid header value'')
         else Inr (lowerName name, v))"

text \<open>
  \<^verbatim>\<open>headers.set(name, value)\<close>: the first header of that name takes the value and the
  others of that name are removed; a new name goes last.
\<close>

fun replaceFirst :: "string \<Rightarrow> string \<Rightarrow> (string \<times> string) list \<Rightarrow> (string \<times> string) list" where
  "replaceFirst n v [] = []"
| "replaceFirst n v (p # ps) =
     (if fst p = n then (n, v) # filter (\<lambda>q. fst q \<noteq> n) ps else p # replaceFirst n v ps)"

definition headersSet ::
  "externals \<Rightarrow> request_mode \<Rightarrow> string \<Rightarrow> string \<Rightarrow> (string \<times> string) list
     \<Rightarrow> error + (string \<times> string) list" where
  "headersSet d m name value hs =
     (case headerPair name value of
        Inl e \<Rightarrow> Inl e
      | Inr nv \<Rightarrow>
          if guarded d m (fst nv) (snd nv) then Inr hs
          else if list_ex (\<lambda>p. fst p = fst nv) hs then Inr (replaceFirst (fst nv) (snd nv) hs)
          else Inr (hs @ [nv]))"

definition headersAppend ::
  "externals \<Rightarrow> request_mode \<Rightarrow> string \<Rightarrow> string \<Rightarrow> (string \<times> string) list
     \<Rightarrow> error + (string \<times> string) list" where
  "headersAppend d m name value hs =
     (case headerPair name value of
        Inl e \<Rightarrow> Inl e
      | Inr nv \<Rightarrow> if guarded d m (fst nv) (snd nv) then Inr hs else Inr (hs @ [nv]))"

text \<open>
  \<^verbatim>\<open>headers.get(name)\<close>: the values of that name joined by a comma and a space,
  \<^verbatim>\<open>null\<close> when there is none.
\<close>

fun joinValues :: "string list \<Rightarrow> string" where
  "joinValues [] = []"
| "joinValues [v] = v"
| "joinValues (v # vs) = v @ '', '' @ joinValues vs"

definition headersGet :: "(string \<times> string) list \<Rightarrow> string \<Rightarrow> string option" where
  "headersGet hs name =
     (let vs = map snd (filter (\<lambda>p. fst p = lowerName name) hs)
      in if vs = [] then None else Some (joinValues vs))"

text \<open>The headers of an init object, appended one by one.\<close>

fun fillHeaders ::
  "externals \<Rightarrow> request_mode \<Rightarrow> (string \<times> string) list \<Rightarrow> (string \<times> string) list
     \<Rightarrow> error + (string \<times> string) list" where
  "fillHeaders d m [] hs = Inr hs"
| "fillHeaders d m (kv # kvs) hs =
     (case headersAppend d m (fst kv) (snd kv) hs of
        Inl e \<Rightarrow> Inl e
      | Inr hs' \<Rightarrow> fillHeaders d m kvs hs')"

text \<open>
  \<^verbatim>\<open>new this.requestClass(url, init)\<close>. Without \<^verbatim>\<open>init\<close> the request is a bare GET.
  The constructor throws a \<^verbatim>\<open>TypeError\<close> for a url that does not parse, for the mode
  \<^verbatim>\<open>navigate\<close>, for a method other than GET and POST in the mode \<^verbatim>\<open>no-cors\<close>, for an
  invalid header, and for a GET request with a body. A body that comes without a
  \<^verbatim>\<open>content-type\<close> header is given the one of a string body.
\<close>

definition newRequest :: "externals \<Rightarrow> string \<Rightarrow> request_init option \<Rightarrow> error + request" where
  "newRequest d u init =
     (if \<not> validURL d u then Inl (TypeError ''Invalid URL'')
      else
        case init of
          None \<Rightarrow>
            Inr \<lparr>req_url = u, req_method = GET, req_headers = [], req_mode = Cors,
                 req_credentials = SameOriginCredentials, req_body = None\<rparr>
        | Some i \<Rightarrow>
            if init_mode i = Navigate then Inl (TypeError ''invalid mode'')
            else if init_mode i = NoCors \<and> init_method i = DELETE then
              Inl (TypeError ''method not allowed in no-cors mode'')
            else
              (case fillHeaders d (init_mode i) (init_headers i) [] of
                 Inl e \<Rightarrow> Inl e
               | Inr hs \<Rightarrow>
                   if init_body i \<noteq> None \<and> init_method i = GET then
                     Inl (TypeError ''Request with GET/HEAD method cannot have body'')
                   else
                     (case (if init_body i \<noteq> None \<and> headersGet hs ''content-type'' = None
                            then headersAppend d (init_mode i) ''content-type''
                                   ''text/plain;charset=UTF-8'' hs
                            else Inr hs) of
                        Inl e \<Rightarrow> Inl e
                      | Inr hs' \<Rightarrow>
                          Inr \<lparr>req_url = u, req_method = init_method i, req_headers = hs',
                               req_mode = init_mode i,
                               req_credentials = init_credentials i,
                               req_body = init_body i\<rparr>)))"

text \<open>
  \<^verbatim>\<open>for (const key of Object.keys(headers)) request.headers.set(key, headers[key])\<close>:
  the first \<^verbatim>\<open>set\<close> that throws ends the loop.
\<close>

fun setHeaders :: "externals \<Rightarrow> (string \<times> string) list \<Rightarrow> request \<Rightarrow> error + request" where
  "setHeaders d [] r = Inr r"
| "setHeaders d (kv # kvs) r =
     (case headersSet d (req_mode r) (fst kv) (snd kv) (req_headers r) of
        Inl e \<Rightarrow> Inl e
      | Inr hs \<Rightarrow> setHeaders d kvs (r\<lparr>req_headers := hs\<rparr>))"

text \<open>\<^verbatim>\<open>input.replace(/^\//, "")\<close>\<close>

definition stripLeadingSlash :: "string \<Rightarrow> string" where
  "stripLeadingSlash input =
     (case input of [] \<Rightarrow> [] | ch # rest \<Rightarrow> if ch = CHR ''/'' then rest else input)"

text \<open>
  \<open>options\<close> is the \<^verbatim>\<open>autoRefreshToken\<close> property of the third argument, \<open>None\<close>
  when it is left out. The input is a string by its type, so the \<^verbatim>\<open>typeof\<close> check
  has no branch here. The request is constructed before the headers are prepared. The
  first exchange is given \<^verbatim>\<open>request.clone()\<close>; the retry is a second clone of the same
  request, which already carries the headers of the first attempt, with the freshly
  prepared headers set over them.
\<close>

definition fetch ::
  "externals \<Rightarrow> 'x client \<Rightarrow> string \<Rightarrow> request_init option \<Rightarrow> bool option \<Rightarrow> 'x world
     \<Rightarrow> (response, 'x) result" where
  "fetch d c input init options w =
     (case fetchFunction c of
        None \<Rightarrow> (Inl (Error ''missing fetchFunction in api client''), [], w)
      | Some transport \<Rightarrow>
          if \<not> requestClass c then (Inl (Error ''missing requestClass in api client''), [], w)
          else
            let autoRefreshToken =
                  (case options of
                     Some b \<Rightarrow> b
                   | None \<Rightarrow> (case refreshTokenFunction c of Some f \<Rightarrow> True | None \<Rightarrow> False));
                url = endpoint c @ ''/'' @ stripLeadingSlash input
            in case newRequest d url init of
                 Inl e \<Rightarrow> (Inl e, [], w)
               | Inr request0 \<Rightarrow>
                   (case prepareHeaders d c w of
                      (Inl e, w1) \<Rightarrow> (Inl e, [], w1)
                    | (Inr headers, w1) \<Rightarrow>
                        (case setHeaders d headers request0 of
                           Inl e \<Rightarrow> (Inl e, [], w1)
                         | Inr request \<Rightarrow>
                             (case transport request w1 of
                                (Inl e, w2) \<Rightarrow> (Inl e, [Exchange request], w2)
                              | (Inr response, w2) \<Rightarrow>
                                  if shouldRefreshToken response \<and> autoRefreshToken then
                                    (case refreshTokenFunction c of
                                       None \<Rightarrow>
                                         (Inl (Error
                                            ''missing refreshTokenFunction in api client''),
                                          [Exchange request], w2)
                                     | Some refreshToken \<Rightarrow>
                                         (case refreshToken w2 of
                                            (Inl e, w3) \<Rightarrow>
                                              (Inl e, [Exchange request, RefreshCall], w3)
                                          | (Inr tokenRefreshed, w3) \<Rightarrow>
                                              if tokenRefreshed then
                                                (case prepareHeaders d c w3 of
                                                   (Inl e, w4) \<Rightarrow>
                                                     (Inl e, [Exchange request, RefreshCall], w4)
                                                 | (Inr headers', w4) \<Rightarrow>
                                                     (case setHeaders d headers' request of
                                                        Inl e \<Rightarrow>
                                                          (Inl e,
                                                           [Exchange request, RefreshCall], w4)
                                                      | Inr retryRequest \<Rightarrow>
                                                          (case transport retryRequest w4 of
                                                             (retried, w5) \<Rightarrow>
                                                               (retried,
                                                                [Exchange request, RefreshCall,
                                                                 Exchange retryRequest], w5))))
                                              else
                                                (Inr response,
                                                 [Exchange request, RefreshCall], w3)))
                                  else (Inr response, [Exchange request], w2)))))"

subsection \<open>request: the envelope decoder\<close>

record request_options =
  json :: "(string \<times> json) list option"
  query :: "(string \<times> string) list option"
  autoRefreshToken :: "bool option"

text \<open>
  The part of \<^verbatim>\<open>request\<close> after the response has arrived: the \<^verbatim>\<open>try\<close> around
  \<^verbatim>\<open>response.json()\<close> and the decoding of the envelope.
\<close>

definition decodeResponse :: "externals \<Rightarrow> response \<Rightarrow> error + json" where
  "decodeResponse d response =
     (case json_body response of
        None \<Rightarrow>
          if status response < 200 \<or> status response \<ge> 300 then
            Inl (SkygearError ''unexpected status code'' ''InternalError'' ''UnexpectedError''
                   (Some (JObj [(''status_code'', JNum (of_int (status response)))])))
          else
            Inl (SkygearError ''failed to decode response JSON'' ''InternalError''
                   ''UnexpectedError'' None)
      | Some jsonBody \<Rightarrow>
          (case get_prop jsonBody ''result'' of
             Inl e \<Rightarrow> Inl e
           | Inr res \<Rightarrow>
               if truthy res then Inr res
               else
                 (case get_prop jsonBody ''error'' of
                    Inl e \<Rightarrow> Inl e
                  | Inr err \<Rightarrow>
                      if truthy err then Inl (decodeError d (Some err))
                      else Inl (decodeError d None))))"

text \<open>
  The two values that \<^verbatim>\<open>request\<close> builds before it calls \<^verbatim>\<open>fetch\<close>: the path
  with the encoded query appended, and the \<^verbatim>\<open>RequestInit\<close> object.
\<close>

definition requestPath :: "externals \<Rightarrow> string \<Rightarrow> request_options \<Rightarrow> string" where
  "requestPath d path options =
     (case query options of Some q \<Rightarrow> path @ encodeQuery d q | None \<Rightarrow> path)"

definition requestInit :: "http_method \<Rightarrow> request_options \<Rightarrow> request_init" where
  "requestInit method options =
     (let headers = (case json options of
                       Some j \<Rightarrow> [(''content-type'', ''application/json'')]
                     | None \<Rightarrow> [])
      in \<lparr>init_method = method, init_headers = headers, init_mode = Cors,
          init_credentials = Include,
          init_body = (case json options of
                         Some j \<Rightarrow> JSON_stringify (JObj j)
                       | None \<Rightarrow> None)\<rparr>)"

definition request ::
  "externals \<Rightarrow> 'x client \<Rightarrow> http_method \<Rightarrow> string \<Rightarrow> request_options \<Rightarrow> 'x world
     \<Rightarrow> (json, 'x) result" where
  "request d c method path options w =
     (case fetch d c (requestPath d path options) (Some (requestInit method options))
             (autoRefreshToken options) w of
        (Inl e, tr, w') \<Rightarrow> (Inl e, tr, w')
      | (Inr response, tr, w') \<Rightarrow> (decodeResponse d response, tr, w'))"

definition post ::
  "externals \<Rightarrow> 'x client \<Rightarrow> string \<Rightarrow> request_options \<Rightarrow> 'x world \<Rightarrow> (json, 'x) result" where
  "post d c path options w = request d c POST path options w"

text \<open>What follows an awaited call when the rest of the function only reshapes the value.\<close>

definition andThen :: "('a, 'x) result \<Rightarrow> ('a \<Rightarrow> error + 'b) \<Rightarrow> ('b, 'x) result" where
  "andThen r f =
     (case r of (Inl e, tr, w) \<Rightarrow> (Inl e, tr, w) | (Inr v, tr, w) \<Rightarrow> (f v, tr, w))"

definition postAndReturnAuthResponse ::
  "externals \<Rightarrow> 'x client \<Rightarrow> string \<Rightarrow> request_options \<Rightarrow> 'x world \<Rightarrow> (json, 'x) result" where
  "postAndReturnAuthResponse d c path options w =
     andThen (post d c path options w) (decodeAuthResponse d)"

text \<open>\<^verbatim>\<open>{ json: payload }\<close>\<close>

definition jsonOnly :: "(string \<times> json) list \<Rightarrow> request_options" where
  "jsonOnly payload = \<lparr>json = Some payload, query = None, autoRefreshToken = None\<rparr>"

subsection \<open>Auth flow layer: payloads\<close>

definition makePayloadWithAuthenticationSessionToken ::
  "'x world \<Rightarrow> (string \<times> json) list \<Rightarrow> (string \<times> json) list" where
  "makePayloadWithAuthenticationSessionToken w payload =
     (case authenticationSession w of
        Some session \<Rightarrow> put ''authn_session_token'' (JStr (token session)) payload
      | None \<Rightarrow> payload)"

text \<open>An optional argument as the value the object literal holds for it.\<close>

definition optStr :: "string option \<Rightarrow> json" where
  "optStr s = (case s of Some x \<Rightarrow> JStr x | None \<Rightarrow> JUndefined)"

definition optBool :: "bool option \<Rightarrow> json" where
  "optBool b = (case b of Some x \<Rightarrow> JBool x | None \<Rightarrow> JUndefined)"

text \<open>
  An object literal \<^verbatim>\<open>{ a: response.x, b: response.y }\<close>, given as the pairs of the new
  name and the property read.
\<close>

fun pick :: "json \<Rightarrow> (string \<times> string) list \<Rightarrow> error + (string \<times> json) list" where
  "pick response [] = Inr []"
| "pick response ((name, prop) # others) =
     (case get_prop response prop of
        Inl e \<Rightarrow> Inl e
      | Inr v \<Rightarrow> (case pick response others of Inl e \<Rightarrow> Inl e | Inr kvs \<Rightarrow> Inr ((name, v) # kvs)))"

definition pickObj :: "(string \<times> string) list \<Rightarrow> json \<Rightarrow> error + json" where
  "pickObj names response =
     (case pick response names of Inl e \<Rightarrow> Inl e | Inr kvs \<Rightarrow> Inr (JObj kvs))"

text \<open>\<^verbatim>\<open>xs.map(f)\<close> where \<open>f\<close> may throw: the first exception ends the loop.\<close>

fun mapE :: "('a \<Rightarrow> error + 'b) \<Rightarrow> 'a list \<Rightarrow> error + 'b list" where
  "mapE f [] = Inr []"
| "mapE f (x # xs) =
     (case f x of
        Inl e \<Rightarrow> Inl e
      | Inr y \<Rightarrow> (case mapE f xs of Inl e \<Rightarrow> Inl e | Inr ys \<Rightarrow> Inr (y # ys)))"

definition refresh :: "externals \<Rightarrow> 'x client \<Rightarrow> string \<Rightarrow> 'x world \<Rightarrow> (json, 'x) result" where
  "refresh d c refreshToken w =
     (let payload = [(''refresh_token'', JStr refreshToken)]
      in andThen
           (post d c ''/_auth/refresh''
              \<lparr>json = Some payload, query = None, autoRefreshToken = Some False\<rparr> w)
           (\<lambda>response. get_prop response ''access_token''))"

subsubsection \<open>Login identifiers\<close>

text \<open>
  An identifier object \<^verbatim>\<open>{ [key: string]: string }\<close> is the list of its properties;
  \<^verbatim>\<open>Object.keys\<close> lists their names.
\<close>

definition Object_keys :: "(string \<times> 'v) list \<Rightarrow> string list" where
  "Object_keys obj = map fst obj"

definition extractSingleKeyValue ::
  "(string \<times> string) list \<Rightarrow> string \<Rightarrow> error + (string \<times> string)" where
  "extractSingleKeyValue obj errorMessage =
     (let keys = Object_keys obj
      in if length keys \<noteq> 1 then Inl (Error errorMessage)
         else (case obj of kv # others \<Rightarrow> Inr kv | [] \<Rightarrow> Inl (Error errorMessage)))"

definition addLoginID ::
  "externals \<Rightarrow> 'x client \<Rightarrow> (string \<times> string) list list \<Rightarrow> 'x world \<Rightarrow> (json, 'x) result" where
  "addLoginID d c loginIDs w =
     (case mapE (\<lambda>loginID. extractSingleKeyValue loginID ''must provide exactly one login ID'')
             loginIDs of
        Inl e \<Rightarrow> (Inl e, [], w)
      | Inr kvs \<Rightarrow>
          post d c ''/_auth/login_id/add''
            (jsonOnly
               [(''login_ids'',
                 JArr (map (\<lambda>kv. JObj [(''key'', JStr (fst kv)), (''value'', JStr (snd kv))])
                        kvs))]) w)"

definition removeLoginID ::
  "externals \<Rightarrow> 'x client \<Rightarrow> (string \<times> string) list \<Rightarrow> 'x world \<Rightarrow> (json, 'x) result" where
  "removeLoginID d c loginID w =
     (case extractSingleKeyValue loginID ''must provide exactly one login ID'' of
        Inl e \<Rightarrow> (Inl e, [], w)
      | Inr kv \<Rightarrow>
          post d c ''/_auth/login_id/remove''
            (jsonOnly [(''key'', JStr (fst kv)), (''value'', JStr (snd kv))]) w)"

definition updateLoginID ::
  "externals \<Rightarrow> 'x client \<Rightarrow> (string \<times> string) list \<Rightarrow> (string \<times> string) list \<Rightarrow> 'x world
     \<Rightarrow> (json, 'x) result" where
  "updateLoginID d c oldLoginID newLoginID w =
     (case extractSingleKeyValue oldLoginID ''must provide exactly one old login ID'' of
        Inl e \<Rightarrow> (Inl e, [], w)
      | Inr old \<Rightarrow>
          (case extractSingleKeyValue newLoginID ''must provide exactly one new login ID'' of
             Inl e \<Rightarrow> (Inl e, [], w)
           | Inr new \<Rightarrow>
               postAndReturnAuthResponse d c ''/_auth/login_id/update''
                 (jsonOnly
                    [(''old_login_id'',
                      JObj [(''key'', JStr (fst old)), (''value'', JStr (snd old))]),
                     (''new_login_id'',
                      JObj [(''key'', JStr (fst new)), (''value'', JStr (snd new))])])
                 w))"

subsubsection \<open>Recovery codes and authenticators\<close>

definition listRecoveryCode :: "externals \<Rightarrow> 'x client \<Rightarrow> 'x world \<Rightarrow> (json, 'x) result" where
  "listRecoveryCode d c w =
     andThen (post d c ''/_auth/mfa/recovery_code/list'' (jsonOnly []) w)
       (\<lambda>response. get_prop response ''recovery_codes'')"

definition regenerateRecoveryCode :: "externals \<Rightarrow> 'x client \<Rightarrow> 'x world \<Rightarrow> (json, 'x) result" where
  "regenerateRecoveryCode d c w =
     andThen (post d c ''/_auth/mfa/recovery_code/regenerate'' (jsonOnly []) w)
       (\<lambda>response. get_prop response ''recovery_codes'')"

definition authenticateWithRecoveryCode ::
  "externals \<Rightarrow> 'x client \<Rightarrow> string \<Rightarrow> 'x world \<Rightarrow> (json, 'x) result" where
  "authenticateWithRecoveryCode d c code w =
     (let payload = makePayloadWithAuthenticationSessionToken w [(''code'', JStr code)]
      in postAndReturnAuthResponse d c ''/_auth/mfa/recovery_code/authenticate''
           (jsonOnly payload) w)"

text \<open>
  \<^verbatim>\<open>(response.authenticators as any[]).map(decodeAuthenticator)\<close>: a value that is not
  an array has no \<^verbatim>\<open>map\<close>.
\<close>

definition getAuthenticators :: "externals \<Rightarrow> 'x client \<Rightarrow> 'x world \<Rightarrow> (json, 'x) result" where
  "getAuthenticators d c w =
     (let payload = makePayloadWithAuthenticationSessionToken w []
      in andThen (post d c ''/_auth/mfa/authenticator/list'' (jsonOnly payload) w)
           (\<lambda>response.
              case get_prop response ''authenticators'' of
                Inl e \<Rightarrow> Inl e
              | Inr (JArr xs) \<Rightarrow>
                  (case mapE (decodeAuthenticator d) xs of
                     Inl e \<Rightarrow> Inl e
                   | Inr ys \<Rightarrow> Inr (JArr ys))
              | Inr v \<Rightarrow> Inl (TypeError ''map is not a function'')))"

definition deleteAuthenticator ::
  "externals \<Rightarrow> 'x client \<Rightarrow> string \<Rightarrow> 'x world \<Rightarrow> (json, 'x) result" where
  "deleteAuthenticator d c ident w =
     andThen
       (post d c ''/_auth/mfa/authenticator/delete''
          (jsonOnly [(''authenticator_id'', JStr ident)]) w)
       (\<lambda>response. Inr JUndefined)"

subsubsection \<open>TOTP\<close>

record CreateNewTOTPOptions =
  displayName :: string
  issuer :: string
  accountName :: string

definition createNewTOTP ::
  "externals \<Rightarrow> 'x client \<Rightarrow> CreateNewTOTPOptions \<Rightarrow> 'x world \<Rightarrow> (json, 'x) result" where
  "createNewTOTP d c options w =
     (let payload = makePayloadWithAuthenticationSessionToken w
            [(''display_name'', JStr (displayName options)),
             (''issuer'', JStr (issuer options)),
             (''account_name'', JStr (accountName options))]
      in andThen (post d c ''/_auth/mfa/totp/new'' (jsonOnly payload) w)
           (pickObj
              [(''authenticatorID'', ''authenticator_id''),
               (''authenticatorType'', ''authenticator_type''),
               (''secret'', ''secret''),
               (''otpauthURI'', ''otpauth_uri''),
               (''qrCodeImageURI'', ''qr_code_image_uri'')]))"

definition activateTOTP :: "externals \<Rightarrow> 'x client \<Rightarrow> string \<Rightarrow> 'x world \<Rightarrow> (json, 'x) result" where
  "activateTOTP d c otp w =
     (let payload = makePayloadWithAuthenticationSessionToken w [(''otp'', JStr otp)]
      in andThen (post d c ''/_auth/mfa/totp/activate'' (jsonOnly payload) w)
           (pickObj [(''recoveryCodes'', ''recovery_codes'')]))"

record AuthenticateWithTOTPOptions =
  totp_otp :: string
  totp_skipMFAForCurrentDevice :: "bool option"

definition authenticateWithTOTP ::
  "externals \<Rightarrow> 'x client \<Rightarrow> AuthenticateWithTOTPOptions \<Rightarrow> 'x world \<Rightarrow> (json, 'x) result" where
  "authenticateWithTOTP d c options w =
     (let payload = makePayloadWithAuthenticationSessionToken w
            [(''request_bearer_token'', optBool (totp_skipMFAForCurrentDevice options)),
             (''otp'', JStr (totp_otp options))]
      in postAndReturnAuthResponse d c ''/_auth/mfa/totp/authenticate'' (jsonOnly payload) w)"

subsubsection \<open>Out-of-band codes\<close>

record CreateNewOOBOptions =
  channel :: string
  phone :: "string option"
  email :: "string option"

definition createNewOOB ::
  "externals \<Rightarrow> 'x client \<Rightarrow> CreateNewOOBOptions \<Rightarrow> 'x world \<Rightarrow> (json, 'x) result" where
  "createNewOOB d c options w =
     (let payload = makePayloadWithAuthenticationSessionToken w
            [(''channel'', JStr (channel options)),
             (''phone'', optStr (phone options)),
             (''email'', optStr (email options))]
      in andThen (post d c ''/_auth/mfa/oob/new'' (jsonOnly payload) w)
           (pickObj
              [(''authenticatorID'', ''authenticator_id''),
               (''authenticatorType'', ''authenticator_type''),
               (''channel'', ''channel'')]))"

definition activateOOB :: "externals \<Rightarrow> 'x client \<Rightarrow> string \<Rightarrow> 'x world \<Rightarrow> (json, 'x) result" where
  "activateOOB d c code w =
     (let payload = makePayloadWithAuthenticationSessionToken w [(''code'', JStr code)]
      in andThen (post d c ''/_auth/mfa/oob/activate'' (jsonOnly payload) w)
           (pickObj [(''recoveryCodes'', ''recovery_codes'')]))"

definition triggerOOB ::
  "externals \<Rightarrow> 'x client \<Rightarrow> string option \<Rightarrow> 'x world \<Rightarrow> (json, 'x) result" where
  "triggerOOB d c authenticatorID w =
     (let payload = makePayloadWithAuthenticationSessionToken w
            [(''authenticator_id'', optStr authenticatorID)]
      in andThen (post d c ''/_auth/mfa/oob/trigger'' (jsonOnly payload) w)
           (\<lambda>response. Inr JUndefined))"

record AuthenticateWithOOBOptions =
  oob_code :: string
  oob_skipMFAForCurrentDevice :: "bool option"

definition authenticateWithOOB ::
  "externals \<Rightarrow> 'x client \<Rightarrow> AuthenticateWithOOBOptions \<Rightarrow> 'x world \<Rightarrow> (json, 'x) result" where
  "authenticateWithOOB d c options w =
     (let payload = makePayloadWithAuthenticationSessionToken w
            [(''request_bearer_token'', optBool (oob_skipMFAForCurrentDevice options)),
             (''code'', JStr (oob_code options))]
      in postAndReturnAuthResponse d c ''/_auth/mfa/oob/authenticate'' (jsonOnly payload) w)"

subsubsection \<open>Bearer token\<close>

definition authenticateWithBearerToken ::
  "externals \<Rightarrow> 'x client \<Rightarrow> string option \<Rightarrow> 'x world \<Rightarrow> (json, 'x) result" where
  "authenticateWithBearerToken d c bearerToken w =
     (let payload = makePayloadWithAuthenticationSessionToken w
            [(''bearer_token'', optStr bearerToken)]
      in postAndReturnAuthResponse d c ''/_auth/mfa/bearer_token/authenticate''
           (jsonOnly payload) w)"

subsection \<open>The calls named by the specification, and what is observed of a request\<close>

text \<open>
  The MFA-step calls: TOTP activate and authenticate, OOB trigger, activate and
  authenticate, recovery-code authenticate, bearer-token authenticate.
\<close>

datatype mfa_call =
    ActivateTOTP string
  | AuthenticateWithTOTP AuthenticateWithTOTPOptions
  | TriggerOOB "string option"
  | ActivateOOB string
  | AuthenticateWithOOB AuthenticateWithOOBOptions
  | AuthenticateWithRecoveryCode string
  | AuthenticateWithBearerToken "string option"

fun mfaStep :: "externals \<Rightarrow> 'x client \<Rightarrow> mfa_call \<Rightarrow> 'x world \<Rightarrow> (json, 'x) result" where
  "mfaStep d c (ActivateTOTP otp) w = activateTOTP d c otp w"
| "mfaStep d c (AuthenticateWithTOTP options) w = authenticateWithTOTP d c options w"
| "mfaStep d c (TriggerOOB authenticatorID) w = triggerOOB d c authenticatorID w"
| "mfaStep d c (ActivateOOB code) w = activateOOB d c code w"
| "mfaStep d c (AuthenticateWithOOB options) w = authenticateWithOOB d c options w"
| "mfaStep d c (AuthenticateWithRecoveryCode code) w = authenticateWithRecoveryCode d c code w"
| "mfaStep d c (AuthenticateWithBearerToken bearerToken) w =
     authenticateWithBearerToken d c bearerToken w"

text \<open>
  The enrollment and management calls: create-new-TOTP, create-new-OOB, activate-TOTP,
  activate-OOB, list authenticators, delete authenticator, recovery-code list and
  regenerate.
\<close>

datatype enrollment_call =
    CreateNewTOTP CreateNewTOTPOptions
  | CreateNewOOB CreateNewOOBOptions
  | EnrollActivateTOTP string
  | EnrollActivateOOB string
  | GetAuthenticators
  | DeleteAuthenticator string
  | ListRecoveryCode
  | RegenerateRecoveryCode

fun enrollment ::
  "externals \<Rightarrow> 'x client \<Rightarrow> enrollment_call \<Rightarrow> 'x world \<Rightarrow> (json, 'x) result" where
  "enrollment d c (CreateNewTOTP options) w = createNewTOTP d c options w"
| "enrollment d c (CreateNewOOB options) w = createNewOOB d c options w"
| "enrollment d c (EnrollActivateTOTP otp) w = activateTOTP d c otp w"
| "enrollment d c (EnrollActivateOOB code) w = activateOOB d c code w"
| "enrollment d c GetAuthenticators w = getAuthenticators d c w"
| "enrollment d c (DeleteAuthenticator ident) w = deleteAuthenticator d c ident w"
| "enrollment d c ListRecoveryCode w = listRecoveryCode d c w"
| "enrollment d c RegenerateRecoveryCode w = regenerateRecoveryCode d c w"

text \<open>Which of them build their payload with the session token.\<close>

fun threadsSession :: "enrollment_call \<Rightarrow> bool" where
  "threadsSession (DeleteAuthenticator ident) = False"
| "threadsSession ListRecoveryCode = False"
| "threadsSession RegenerateRecoveryCode = False"
| "threadsSession call = True"

text \<open>
  The body of a request is a JSON object that has the field \<open>k\<close> with the value \<open>v\<close>,
  or is a JSON object without the field \<open>k\<close>.
\<close>

definition carries :: "request \<Rightarrow> string \<Rightarrow> json \<Rightarrow> bool" where
  "carries r k v =
     (case req_body r of Some (JObj kvs) \<Rightarrow> map_of kvs k = Some v | _ \<Rightarrow> False)"

definition omits :: "request \<Rightarrow> string \<Rightarrow> bool" where
  "omits r k = (case req_body r of Some (JObj kvs) \<Rightarrow> map_of kvs k = None | _ \<Rightarrow> False)"

text \<open>The value under a key of a parsed object, \<^verbatim>\<open>undefined\<close> when the key is missing.\<close>

definition valueUnder :: "(string \<times> json) list \<Rightarrow> string \<Rightarrow> json" where
  "valueUnder kvs k = (case map_of kvs k of Some v \<Rightarrow> v | None \<Rightarrow> JUndefined)"

subsection \<open>A concrete client\<close>

text \<open>
  A server that answers every request with the stale-token header, and one that answers
  with a result; both count the exchanges in \<open>ext\<close>. A refresh capability that writes a
  given token and resolves to a given flag.
\<close>

definition demoExternals :: externals where
  "demoExternals =
     \<lparr>decodeError = (\<lambda>e. case e of Some v \<Rightarrow> SkygearError ''server'' ''Server'' ''Error'' (Some v)
                                | None \<Rightarrow> Error ''undefined''),
      encodeQuery = (\<lambda>q. []),
      encodeBase64FromString = (\<lambda>s. s),
      JSON_text = (\<lambda>v. []),
      decodeAuthResponse = Inr,
      decodeAuthenticator = Inr,
      validURL = (\<lambda>u. True),
      guarded = (\<lambda>m n v. False)\<rparr>"

definition staleResponse :: response where
  "staleResponse =
     \<lparr>status = 401,
      resp_headers = (\<lambda>name. if name = ''x-skygear-try-refresh-token'' then Some ''true'' else None),
      json_body = Some (JObj [(''error'', JObj [(''name'', JStr ''NotAuthenticated'')])])\<rparr>"

definition okResponse :: response where
  "okResponse =
     \<lparr>status = 200,
      resp_headers = (\<lambda>name. None),
      json_body = Some (JObj [(''result'', JObj [(''access_token'', JStr ''tok2'')])])\<rparr>"

definition staleTransport :: "request \<Rightarrow> nat world \<Rightarrow> (error + response) \<times> nat world" where
  "staleTransport r w = (Inr staleResponse, w\<lparr>ext := Suc (ext w)\<rparr>)"

definition okTransport :: "request \<Rightarrow> nat world \<Rightarrow> (error + response) \<times> nat world" where
  "okTransport r w = (Inr okResponse, w\<lparr>ext := Suc (ext w)\<rparr>)"

definition demoRefresh :: "string option \<Rightarrow> bool \<Rightarrow> nat world \<Rightarrow> (error + bool) \<times> nat world" where
  "demoRefresh tok ok w = (Inr ok, w\<lparr>accessToken := tok\<rparr>)"

definition demoClient ::
  "(request \<Rightarrow> nat world \<Rightarrow> (error + response) \<times> nat world)
     \<Rightarrow> (nat world \<Rightarrow> (error + bool) \<times> nat world) option \<Rightarrow> nat client" where
  "demoClient transport refreshToken =
     \<lparr>apiKey = ''key'', endpoint = ''https://api.example'',
      authEndpoint = ''https://accounts.api.example'',
      assetEndpoint = ''https://assets.api.example'',
      fetchFunction = Some transport, requestClass = True,
      refreshTokenFunction = refreshToken, userAgent = None, getExtraSessionInfo = None\<rparr>"

definition demoWorld :: "nat world" where
  "demoWorld =
     \<lparr>accessToken = Some ''old'',
      authenticationSession = Some \<lparr>token = ''sess1'', step = ''mfa''\<rparr>,
      ext = 0\<rparr>"

text \<open>
  An extra-session-info supplier that resolves to \<^verbatim>\<open>null\<close> before the first exchange
  and rejects afterwards, and the client that has it besides a refresh capability.
\<close>

definition flakySupplier :: "nat world \<Rightarrow> (error + json) \<times> nat world" where
  "flakySupplier w = (if ext w = 0 then (Inr JNull, w) else (Inl (Error ''boom''), w))"

definition flakyClient :: "nat client" where
  "flakyClient =
     (demoClient staleTransport (Some (demoRefresh (Some ''tok2'') True)))
       \<lparr>getExtraSessionInfo := Some flakySupplier\<rparr>"



section \<open>Endpoint derivation\<close>

lemma take_prefix_split: "take n s = p \<Longrightarrow> s = p @ drop n s"
  by (metis append_take_drop_id)

lemma matchEndpoint_Some:
  assumes "matchEndpoint s = Some (p, r)"
  shows "s = p @ r \<and> p \<in> {''http://'', ''https://'', ''//''} \<and> \<not> list_ex lineTerminator r"
proof -
  consider (a) "take 7 s = ''http://''" "\<not> list_ex lineTerminator (drop 7 s)" "p = ''http://''" "r = drop 7 s"
    | (b) "take 8 s = ''https://''" "\<not> list_ex lineTerminator (drop 8 s)" "p = ''https://''" "r = drop 8 s"
    | (c) "take 2 s = ''//''" "\<not> list_ex lineTerminator (drop 2 s)" "p = ''//''" "r = drop 2 s"
    using assms unfolding matchEndpoint_def by (auto split: if_splits)
  then show ?thesis
  proof cases
    case a
    with take_prefix_split [of 7 s p] show ?thesis by blast
  next
    case b
    with take_prefix_split [of 8 s p] show ?thesis by blast
  next
    case c
    with take_prefix_split [of 2 s p] show ?thesis by blast
  qed
qed

lemma matchEndpoint_http:
  "\<not> list_ex lineTerminator r \<Longrightarrow> matchEndpoint (''http://'' @ r) = Some (''http://'', r)"
  unfolding matchEndpoint_def by simp

lemma matchEndpoint_https:
  "\<not> list_ex lineTerminator r \<Longrightarrow> matchEndpoint (''https://'' @ r) = Some (''https://'', r)"
  unfolding matchEndpoint_def by simp

lemma matchEndpoint_slashes:
  "\<not> list_ex lineTerminator r \<Longrightarrow> matchEndpoint (''//'' @ r) = Some (''//'', r)"
  unfolding matchEndpoint_def by simp

lemma matchEndpoint_complete:
  "p \<in> {''http://'', ''https://'', ''//''} \<Longrightarrow> \<not> list_ex lineTerminator r \<Longrightarrow>
   matchEndpoint (p @ r) = Some (p, r)"
  using matchEndpoint_http matchEndpoint_https matchEndpoint_slashes by blast


lemma GS_literal:
  "c \<noteq> CHR ''$'' \<Longrightarrow>
   GetSubstitution m s p caps (c # t) = c # GetSubstitution m s p caps t"
  by (cases t) simp_all

lemma GS_plain:
  "CHR ''$'' \<notin> set g \<Longrightarrow>
   GetSubstitution m s p caps (g @ t) = g @ GetSubstitution m s p caps t"
  by (induction g) (auto simp: GS_literal simp del: GetSubstitution.simps)

lemma GS_group1:
  "GetSubstitution m s pos [p, r] (CHR ''$'' # CHR ''1'' # t) = p @ GetSubstitution m s pos [p, r] t"
  by (cases t) (simp_all add: isDigit_def digitVal_def)

lemma GS_tail: "GetSubstitution m s pos [p, r] ''.$2'' = ''.'' @ r"
  by (simp add: isDigit_def digitVal_def)

lemma GS_template:
  "CHR ''$'' \<notin> set g \<Longrightarrow>
   GetSubstitution m s pos [p, r] (''$1'' @ g @ ''.$2'') = p @ g @ ''.'' @ r"
  using GS_group1 [of m s pos p r "g @ ''.$2''"] GS_plain [of g m s pos "[p, r]" "''.$2''"]
    GS_tail [of m s pos p r]
  by simp

lemma gearEndpoint_unmatched:
  "matchEndpoint E = None \<Longrightarrow> gearEndpoint E G = Inl (Error ''invalid app endpoint'')"
  by (simp add: gearEndpoint_def replaceEndpoint_def)

lemma gearEndpoint_inserts:
  assumes "p \<in> {''http://'', ''https://'', ''//''}" "\<not> list_ex lineTerminator r"
    "CHR ''$'' \<notin> set G"
  shows "gearEndpoint (p @ r) G = Inr (p @ G @ ''.'' @ r)"
proof -
  have m: "matchEndpoint (p @ r) = Some (p, r)"
    using assms(1,2) by (rule matchEndpoint_complete)
  have "replaceEndpoint (p @ r) (''$1'' @ G @ ''.$2'') = p @ G @ ''.'' @ r"
    unfolding replaceEndpoint_def using m GS_template [OF assms(3)] by simp
  moreover have "p @ G @ ''.'' @ r \<noteq> p @ r"
  proof
    assume "p @ G @ ''.'' @ r = p @ r"
    then have "length (p @ G @ ''.'' @ r) = length (p @ r)" by simp
    then show False by simp
  qed
  ultimately show ?thesis by (simp add: gearEndpoint_def)
qed

lemma gearEndpoint_differs: "gearEndpoint E G \<noteq> Inr E"
  by (simp add: gearEndpoint_def Let_def)

text \<open>
  Claim C8, as amended. The derivation is a function of its two arguments, so equal
  inputs give equal results, and it never returns its own input. When the base endpoint
  is one of the prefixes \<^verbatim>\<open>http://\<close>, \<^verbatim>\<open>https://\<close>, \<^verbatim>\<open>//\<close> followed by a rest
  without a line terminator, and the gear label has no \<^verbatim>\<open>$\<close>, the result is the
  prefix, the label, a dot and the rest. When the base endpoint is not of that form, the
  call throws \<^verbatim>\<open>invalid app endpoint\<close>.
\<close>

theorem gearEndpoint_derivation:
  "gearEndpoint E G \<noteq> Inr E
   \<and> (E = E' \<and> G = G' \<longrightarrow> gearEndpoint E G = gearEndpoint E' G')
   \<and> (E = p @ r \<and> p \<in> {''http://'', ''https://'', ''//''} \<and> \<not> list_ex lineTerminator r
        \<and> CHR ''$'' \<notin> set G
      \<longrightarrow> gearEndpoint E G = Inr (p @ G @ ''.'' @ r))
   \<and> (\<not> (\<exists>p r. E = p @ r \<and> p \<in> {''http://'', ''https://'', ''//''}
              \<and> \<not> list_ex lineTerminator r)
      \<longrightarrow> gearEndpoint E G = Inl (Error ''invalid app endpoint''))"
proof -
  have "gearEndpoint E G = Inl (Error ''invalid app endpoint'')"
    if "\<not> (\<exists>p r. E = p @ r \<and> p \<in> {''http://'', ''https://'', ''//''}
              \<and> \<not> list_ex lineTerminator r)"
  proof (cases "matchEndpoint E")
    case None
    then show ?thesis by (rule gearEndpoint_unmatched)
  next
    case (Some pr)
    then have "matchEndpoint E = Some (fst pr, snd pr)" by simp
    from matchEndpoint_Some [OF this] that show ?thesis by blast
  qed
  then show ?thesis
    using gearEndpoint_differs [of E G] gearEndpoint_inserts [of p r G] by blast
qed

text \<open>The derivation at \<^verbatim>\<open>https://api.example\<close> with the label \<^verbatim>\<open>accounts\<close>.\<close>

theorem gearEndpoint_derivation_witness:
  "gearEndpoint ''https://api.example'' ''accounts'' = Inr ''https://accounts.api.example''
   \<and> gearEndpoint ''api.example'' ''accounts'' = Inl (Error ''invalid app endpoint'')"
proof -
  have a: "gearEndpoint ''https://api.example'' ''accounts''
             = Inr (''https://'' @ ''accounts'' @ ''.'' @ ''api.example'')"
    using gearEndpoint_derivation
      [of "''https://api.example''" "''accounts''" "''https://api.example''" "''accounts''"
        "''https://''" "''api.example''"]
    by (simp add: lineTerminator_def)
  have "\<not> (\<exists>p r. ''api.example'' = p @ r \<and> p \<in> {''http://'', ''https://'', ''//''}
              \<and> \<not> list_ex lineTerminator r)"
    by auto
  with gearEndpoint_derivation
      [of "''api.example''" "''accounts''" "''api.example''" "''accounts''" "[]" "[]"]
  have b: "gearEndpoint ''api.example'' ''accounts'' = Inl (Error ''invalid app endpoint'')"
    by blast
  from a b show ?thesis by simp
qed

text \<open>
  Claim C8 as it was stated fails in two places. The label is spliced into the
  replacement template, so a \<^verbatim>\<open>$$\<close> in it is written as one \<^verbatim>\<open>$\<close>: the result is
  not the label inserted after the prefix. And a base endpoint that has a prefix but
  holds a line feed is left unchanged by the substitution, so the call throws.
\<close>

theorem gearEndpoint_dollar_counterexample:
  "gearEndpoint ''http://a.com'' ''$$'' = Inr ''http://$.a.com''
   \<and> gearEndpoint ''http://a.com'' ''$$'' \<noteq> Inr (''http://'' @ ''$$'' @ ''.'' @ ''a.com'')
   \<and> gearEndpoint (''//a.com'' @ [CHR 0x0A]) ''accounts'' = Inl (Error ''invalid app endpoint'')"
  by (simp add: gearEndpoint_def replaceEndpoint_def matchEndpoint_def lineTerminator_def
      isDigit_def digitVal_def)

section \<open>Headers\<close>

lemma setHeaders_fields:
  "setHeaders d hs r = Inr r' \<Longrightarrow>
   req_body r' = req_body r \<and> req_url r' = req_url r \<and> req_method r' = req_method r
   \<and> req_mode r' = req_mode r"
  by (induction hs arbitrary: r) (auto split: sum.splits)

lemma newRequest_fields:
  "newRequest d u init = Inr r \<Longrightarrow>
   req_url r = u
   \<and> req_body r = (case init of None \<Rightarrow> None | Some i \<Rightarrow> init_body i)
   \<and> req_method r = (case init of None \<Rightarrow> GET | Some i \<Rightarrow> init_method i)"
  by (auto simp: newRequest_def split: option.splits if_splits sum.splits)


lemma headerPair_accepts:
  "isHeaderName n \<Longrightarrow> isHeaderValue (normalizeValue x) \<Longrightarrow>
   headerPair n x = Inr (lowerName n, normalizeValue x)"
  by (simp add: headerPair_def)







lemma setHeaders_accepts:
  "\<forall>kv \<in> set hs. isHeaderName (fst kv) \<and> isHeaderValue (normalizeValue (snd kv)) \<Longrightarrow>
   \<exists>r'. setHeaders d hs r = Inr r'"
proof (induction hs arbitrary: r)
  case Nil
  then show ?case by simp
next
  case (Cons kv kvs)
  then have "headerPair (fst kv) (snd kv) = Inr (lowerName (fst kv), normalizeValue (snd kv))"
    by (simp add: headerPair_accepts)
  then have "\<exists>hs1. headersSet d (req_mode r) (fst kv) (snd kv) (req_headers r) = Inr hs1"
    by (simp add: headersSet_def)
  then obtain hs1 where
    "headersSet d (req_mode r) (fst kv) (snd kv) (req_headers r) = Inr hs1" ..
  with Cons show ?case by auto
qed

lemma header_names_valid:
  "isHeaderName ''x-skygear-api-key''" "isHeaderName ''authorization''"
  "isHeaderName ''user-agent''" "isHeaderName ''x-skygear-extra-info''"
  "isHeaderName ''content-type''"
  by (simp_all add: isHeaderName_def isTokenChar_def)

lemma header_names_lower:
  "lowerName ''x-skygear-api-key'' = ''x-skygear-api-key''"
  "lowerName ''authorization'' = ''authorization''"
  "lowerName ''user-agent'' = ''user-agent''"
  "lowerName ''x-skygear-extra-info'' = ''x-skygear-extra-info''"
  "lowerName ''content-type'' = ''content-type''"
  by (simp_all add: lowerName_def lowerChar_def)


lemma prepareHeaders_names:
  assumes "prepareHeaders d c w = (Inr h, w')"
  shows "distinct (map (\<lambda>kv. lowerName (fst kv)) h)
         \<and> (\<forall>kv \<in> set h. isHeaderName (fst kv))"
  using assms
  by (auto simp: prepareHeaders_def Let_def header_names_valid header_names_lower
      split: option.splits prod.splits sum.splits if_splits)


section \<open>fetch\<close>

lemmas fetch_splits = option.splits prod.splits sum.splits if_splits

lemma fetch_exchanges_le2: "length (exchanges (trace_of (fetch d c input init options w))) \<le> 2"
  by (simp add: fetch_def trace_of_def Let_def split: fetch_splits)

lemma fetch_refreshCalls_le1: "refreshCalls (trace_of (fetch d c input init options w)) \<le> 1"
  by (simp add: fetch_def trace_of_def Let_def split: fetch_splits)

lemma fetch_disabled:
  "refreshCalls (trace_of (fetch d c input init (Some False) w)) = 0
   \<and> length (exchanges (trace_of (fetch d c input init (Some False) w))) \<le> 1"
  by (simp add: fetch_def trace_of_def Let_def split: fetch_splits)

lemma fetch_trace_empty:
  "newRequest d (endpoint c @ ''/'' @ stripLeadingSlash input) init = Inl e \<Longrightarrow>
   trace_of (fetch d c input init options w) = []"
  by (simp add: fetch_def trace_of_def Let_def split: option.splits)

lemma fetch_exchange_cases:
  assumes "r \<in> set (exchanges (trace_of (fetch d c input init options w)))"
  shows "\<exists>r0 h r1. newRequest d (endpoint c @ ''/'' @ stripLeadingSlash input) init = Inr r0
           \<and> setHeaders d h r0 = Inr r1
           \<and> (r = r1 \<or> (\<exists>h'. setHeaders d h' r1 = Inr r))"
proof (cases "newRequest d (endpoint c @ ''/'' @ stripLeadingSlash input) init")
  case (Inl e)
  from fetch_trace_empty [OF this] assms show ?thesis by simp
next
  case n: (Inr r0)
  obtain o1 w1 where p: "prepareHeaders d c w = (o1, w1)"
    by (cases "prepareHeaders d c w")
  show ?thesis
  proof (cases o1)
    case (Inl e)
    with assms n p show ?thesis
      by (simp add: fetch_def trace_of_def Let_def split: option.splits if_splits)
  next
    case o: (Inr h)
    show ?thesis
    proof (cases "setHeaders d h r0")
      case (Inl e)
      with assms n p o show ?thesis
        by (simp add: fetch_def trace_of_def Let_def split: option.splits if_splits)
    next
      case s: (Inr r1)
      have "r = r1 \<or> (\<exists>h'. setHeaders d h' r1 = Inr r)"
        using assms n p o s
        by (auto simp: fetch_def trace_of_def Let_def split: fetch_splits)
      with n s show ?thesis by blast
    qed
  qed
qed

lemma fetch_exchange_fields:
  assumes "r \<in> set (exchanges (trace_of (fetch d c input init options w)))"
  shows "req_body r = (case init of None \<Rightarrow> None | Some i \<Rightarrow> init_body i)
   \<and> req_method r = (case init of None \<Rightarrow> GET | Some i \<Rightarrow> init_method i)
   \<and> req_url r = endpoint c @ ''/'' @ stripLeadingSlash input"
proof -
  from fetch_exchange_cases [OF assms] obtain r0 h r1 where
    n: "newRequest d (endpoint c @ ''/'' @ stripLeadingSlash input) init = Inr r0"
    and s: "setHeaders d h r0 = Inr r1"
    and r: "r = r1 \<or> (\<exists>h'. setHeaders d h' r1 = Inr r)"
    by blast
  note f0 = newRequest_fields [OF n]
  note f1 = setHeaders_fields [OF s]
  from r show ?thesis
  proof
    assume "r = r1"
    with f0 f1 show ?thesis by simp
  next
    assume "\<exists>h'. setHeaders d h' r1 = Inr r"
    then obtain h' where "setHeaders d h' r1 = Inr r" ..
    from setHeaders_fields [OF this] f0 f1 show ?thesis by simp
  qed
qed

lemma fetch_exchanges_nonempty:
  "fetchFunction c = Some transport \<Longrightarrow> requestClass c \<Longrightarrow>
   newRequest d (endpoint c @ ''/'' @ stripLeadingSlash input) init = Inr req0 \<Longrightarrow>
   prepareHeaders d c w = (Inr headers, w1) \<Longrightarrow>
   setHeaders d headers req0 = Inr req1 \<Longrightarrow>
   exchanges (trace_of (fetch d c input init options w)) \<noteq> []"
  by (simp add: fetch_def trace_of_def Let_def split: fetch_splits)

lemma fetch_retry:
  assumes "fetchFunction c = Some transport" "requestClass c"
    "newRequest d (endpoint c @ ''/'' @ stripLeadingSlash input) init = Inr req0"
    "prepareHeaders d c w = (Inr headers, w1)"
    "setHeaders d headers req0 = Inr req1"
    "transport req1 w1 = (Inr response, w2)"
    "resp_headers response ''x-skygear-try-refresh-token'' = Some ''true''"
    "options \<noteq> Some False"
    "refreshTokenFunction c = Some refreshToken"
    "refreshToken w2 = (Inr True, w3)"
  shows "prepareHeaders d c w3 = (Inr headers', w4) \<Longrightarrow> setHeaders d headers' req1 = Inr req2
           \<Longrightarrow> transport req2 w4 = (retried, w5)
           \<Longrightarrow> fetch d c input init options w
               = (retried, [Exchange req1, RefreshCall, Exchange req2], w5)"
    and "prepareHeaders d c w3 = (Inl e, w4)
           \<Longrightarrow> fetch d c input init options w = (Inl e, [Exchange req1, RefreshCall], w4)"
    and "prepareHeaders d c w3 = (Inr headers', w4) \<Longrightarrow> setHeaders d headers' req1 = Inl e
           \<Longrightarrow> fetch d c input init options w = (Inl e, [Exchange req1, RefreshCall], w4)"
proof -
  have enabled:
    "(case options of
        Some b \<Rightarrow> b
      | None \<Rightarrow> (case refreshTokenFunction c of Some f \<Rightarrow> True | None \<Rightarrow> False))"
    using assms(8,9) by (cases options) auto
  show "prepareHeaders d c w3 = (Inr headers', w4) \<Longrightarrow> setHeaders d headers' req1 = Inr req2
           \<Longrightarrow> transport req2 w4 = (retried, w5)
           \<Longrightarrow> fetch d c input init options w
               = (retried, [Exchange req1, RefreshCall, Exchange req2], w5)"
    using assms(1-7,9,10) enabled by (simp add: fetch_def Let_def shouldRefreshToken_def)
  show "prepareHeaders d c w3 = (Inl e, w4)
           \<Longrightarrow> fetch d c input init options w = (Inl e, [Exchange req1, RefreshCall], w4)"
    using assms(1-7,9,10) enabled by (simp add: fetch_def Let_def shouldRefreshToken_def)
  show "prepareHeaders d c w3 = (Inr headers', w4) \<Longrightarrow> setHeaders d headers' req1 = Inl e
           \<Longrightarrow> fetch d c input init options w = (Inl e, [Exchange req1, RefreshCall], w4)"
    using assms(1-7,9,10) enabled by (simp add: fetch_def Let_def shouldRefreshToken_def)
qed

lemma fetch_declined:
  assumes "fetchFunction c = Some transport" "requestClass c"
    "newRequest d (endpoint c @ ''/'' @ stripLeadingSlash input) init = Inr req0"
    "prepareHeaders d c w = (Inr headers, w1)"
    "setHeaders d headers req0 = Inr req1"
    "transport req1 w1 = (Inr response, w2)"
    "resp_headers response ''x-skygear-try-refresh-token'' = Some ''true''"
    "options \<noteq> Some False"
    "refreshTokenFunction c = Some refreshToken"
    "refreshToken w2 = (Inr False, w3)"
  shows "fetch d c input init options w = (Inr response, [Exchange req1, RefreshCall], w3)"
proof -
  have enabled:
    "(case options of
        Some b \<Rightarrow> b
      | None \<Rightarrow> (case refreshTokenFunction c of Some f \<Rightarrow> True | None \<Rightarrow> False))"
    using assms(8,9) by (cases options) auto
  show ?thesis
    using assms(1-7,9,10) enabled
    by (simp add: fetch_def Let_def shouldRefreshToken_def)
qed

lemma fetch_disabled_once:
  assumes "fetchFunction c = Some transport" "requestClass c"
    "newRequest d (endpoint c @ ''/'' @ stripLeadingSlash input) init = Inr req0"
    "prepareHeaders d c w = (Inr headers, w1)"
    "setHeaders d headers req0 = Inr req"
    "transport req w1 = (out, w2)"
  shows "fetch d c input init (Some False) w = (out, [Exchange req], w2)"
  using assms by (cases out) (simp_all add: fetch_def Let_def)

section \<open>request\<close>

lemma request_of_fetch:
  "fetch d c (requestPath d path options) (Some (requestInit method options))
     (autoRefreshToken options) w = (Inr response, tr, w') \<Longrightarrow>
   request d c method path options w = (decodeResponse d response, tr, w')"
  by (simp add: request_def)

lemma trace_of_request:
  "trace_of (request d c method path options w)
     = trace_of (fetch d c (requestPath d path options) (Some (requestInit method options))
         (autoRefreshToken options) w)"
  by (simp add: request_def trace_of_def split: prod.splits sum.splits)

lemma world_of_request:
  "world_of (request d c method path options w)
     = world_of (fetch d c (requestPath d path options) (Some (requestInit method options))
         (autoRefreshToken options) w)"
  by (simp add: request_def world_of_def split: prod.splits sum.splits)

lemma trace_of_andThen [simp]: "trace_of (andThen r f) = trace_of r"
  by (simp add: andThen_def trace_of_def split: prod.splits sum.splits)

lemma world_of_andThen [simp]: "world_of (andThen r f) = world_of r"
  by (simp add: andThen_def world_of_def split: prod.splits sum.splits)

text \<open>
  A POST with a JSON payload is always constructed when the url parses, and the headers
  that the header preparer yields are set when their values are valid.
\<close>

lemma newRequest_post:
  "validURL d u \<Longrightarrow> \<exists>req0. newRequest d u (Some (requestInit POST options)) = Inr req0"
  by (cases "json options")
    (simp_all add: newRequest_def requestInit_def headersAppend_def headerPair_accepts
      header_names_valid isHeaderValue_def normalizeValue_def isHTTPWhitespace_def
      headersGet_def header_names_lower)

lemma setHeaders_prepared:
  assumes "prepareHeaders d c w = (Inr headers, w1)"
    "\<forall>kv \<in> set headers. isHeaderValue (normalizeValue (snd kv))"
  shows "\<exists>req. setHeaders d headers req0 = Inr req"
  using prepareHeaders_names [OF assms(1)] assms(2) setHeaders_accepts [of headers d req0]
  by blast

lemma request_exchanges_nonempty:
  assumes "fetchFunction c = Some transport" "requestClass c"
    "validURL d (endpoint c @ ''/'' @ stripLeadingSlash (requestPath d path options))"
    "prepareHeaders d c w = (Inr headers, w1)"
    "\<forall>kv \<in> set headers. isHeaderValue (normalizeValue (snd kv))"
  shows "exchanges (trace_of (request d c POST path options w)) \<noteq> []"
proof -
  from newRequest_post [OF assms(3)] obtain req0 where
    n: "newRequest d (endpoint c @ ''/'' @ stripLeadingSlash (requestPath d path options))
          (Some (requestInit POST options)) = Inr req0" ..
  from setHeaders_prepared [OF assms(4,5)] obtain req where
    s: "setHeaders d headers req0 = Inr req" ..
  from fetch_exchanges_nonempty [OF assms(1,2) n assms(4) s] show ?thesis
    by (simp add: trace_of_request)
qed

section \<open>The single retry\<close>

text \<open>The requests that the concrete client exchanges for \<^verbatim>\<open>/_auth/me\<close>.\<close>

lemma demo_newRequest:
  "newRequest demoExternals ''https://api.example/_auth/me'' None
     = Inr \<lparr>req_url = ''https://api.example/_auth/me'', req_method = GET, req_headers = [],
            req_mode = Cors, req_credentials = SameOriginCredentials, req_body = None\<rparr>"
  by (simp add: newRequest_def demoExternals_def)

lemma headersSet_eval:
  "isHeaderName n \<Longrightarrow> isHeaderValue (normalizeValue x) \<Longrightarrow>
   \<not> guarded d m (lowerName n) (normalizeValue x) \<Longrightarrow>
   headersSet d m n x hs
     = Inr (if list_ex (\<lambda>p. fst p = lowerName n) hs
            then replaceFirst (lowerName n) (normalizeValue x) hs
            else hs @ [(lowerName n, normalizeValue x)])"
  by (simp add: headersSet_def headerPair_accepts)

lemma headersSet_invalid:
  "isHeaderName n \<Longrightarrow> \<not> isHeaderValue (normalizeValue x) \<Longrightarrow>
   headersSet d m n x hs = Inl (TypeError ''invalid header value'')"
  by (simp add: headersSet_def headerPair_def)

lemma demo_values:
  "normalizeValue ''key'' = ''key''"
  "normalizeValue ''bearer old'' = ''bearer old''"
  "normalizeValue ''bearer tok2'' = ''bearer tok2''"
  "normalizeValue ''application/json'' = ''application/json''"
  by (simp_all add: normalizeValue_def isHTTPWhitespace_def)

lemma demo_guard: "guarded demoExternals m n v = False"
  by (simp add: demoExternals_def)

lemmas demo_headers =
  headersSet_eval header_names_valid header_names_lower demo_values demo_guard isHeaderValue_def

lemma demo_setHeaders_old:
  "setHeaders demoExternals [(''x-skygear-api-key'', ''key''), (''authorization'', ''bearer old'')]
     \<lparr>req_url = u, req_method = m, req_headers = [], req_mode = Cors,
      req_credentials = cr, req_body = b\<rparr>
   = Inr \<lparr>req_url = u, req_method = m,
          req_headers = [(''x-skygear-api-key'', ''key''), (''authorization'', ''bearer old'')],
          req_mode = Cors, req_credentials = cr, req_body = b\<rparr>"
  by (simp add: demo_headers)


lemma demo_setHeaders_new:
  "setHeaders demoExternals [(''x-skygear-api-key'', ''key''), (''authorization'', ''bearer tok2'')]
     \<lparr>req_url = u, req_method = m,
      req_headers = [(''x-skygear-api-key'', ''key''), (''authorization'', ''bearer old'')],
      req_mode = Cors, req_credentials = cr, req_body = b\<rparr>
   = Inr \<lparr>req_url = u, req_method = m,
          req_headers = [(''x-skygear-api-key'', ''key''), (''authorization'', ''bearer tok2'')],
          req_mode = Cors, req_credentials = cr, req_body = b\<rparr>"
  by (simp add: demo_headers)

lemma demo_prepareHeaders:
  "prepareHeaders demoExternals (demoClient transport refreshToken)
     \<lparr>accessToken = Some ''old'', authenticationSession = s, ext = n\<rparr>
   = (Inr [(''x-skygear-api-key'', ''key''), (''authorization'', ''bearer old'')],
      \<lparr>accessToken = Some ''old'', authenticationSession = s, ext = n\<rparr>)"
  "prepareHeaders demoExternals (demoClient transport refreshToken)
     \<lparr>accessToken = Some ''tok2'', authenticationSession = s, ext = n\<rparr>
   = (Inr [(''x-skygear-api-key'', ''key''), (''authorization'', ''bearer tok2'')],
      \<lparr>accessToken = Some ''tok2'', authenticationSession = s, ext = n\<rparr>)"
  "prepareHeaders demoExternals (demoClient transport refreshToken)
     \<lparr>accessToken = None, authenticationSession = s, ext = n\<rparr>
   = (Inr [(''x-skygear-api-key'', ''key'')],
      \<lparr>accessToken = None, authenticationSession = s, ext = n\<rparr>)"
  "prepareHeaders demoExternals (demoClient transport refreshToken)
     \<lparr>accessToken = Some [], authenticationSession = s, ext = n\<rparr>
   = (Inr [(''x-skygear-api-key'', ''key'')],
      \<lparr>accessToken = Some [], authenticationSession = s, ext = n\<rparr>)"
  by (simp_all add: prepareHeaders_def demoClient_def)

text \<open>
  Claim C1, as amended. A call of \<open>fetch\<close> invokes the transport at most twice and the
  refresh capability at most once. When the first response carries the stale-token
  header \<^verbatim>\<open>true\<close>, automatic refresh is enabled, and the refresh capability is
  configured and resolves to true, then: if the headers are prepared and set again
  without an exception, \<open>fetch\<close> issues exactly one more exchange and its outcome is
  whatever that exchange yields, a second stale-token header not being looked at; if
  the header preparer rejects, or a header cannot be set, the call fails with that
  error after the one exchange and the one refresh call.
\<close>

theorem fetch_single_retry:
  "length (exchanges (trace_of (fetch d c input init options w))) \<le> 2
   \<and> refreshCalls (trace_of (fetch d c input init options w)) \<le> 1
   \<and> (fetchFunction c = Some transport \<and> requestClass c
        \<and> newRequest d (endpoint c @ ''/'' @ stripLeadingSlash input) init = Inr req0
        \<and> prepareHeaders d c w = (Inr headers, w1)
        \<and> setHeaders d headers req0 = Inr req1
        \<and> transport req1 w1 = (Inr response, w2)
        \<and> resp_headers response ''x-skygear-try-refresh-token'' = Some ''true''
        \<and> options \<noteq> Some False
        \<and> refreshTokenFunction c = Some refreshToken
        \<and> refreshToken w2 = (Inr True, w3)
      \<longrightarrow> (prepareHeaders d c w3 = (Inr headers', w4)
             \<and> setHeaders d headers' req1 = Inr req2
             \<and> transport req2 w4 = (retried, w5)
           \<longrightarrow> fetch d c input init options w
                 = (retried, [Exchange req1, RefreshCall, Exchange req2], w5))
          \<and> (prepareHeaders d c w3 = (Inl e, w4)
           \<longrightarrow> fetch d c input init options w
                 = (Inl e, [Exchange req1, RefreshCall], w4))
          \<and> (prepareHeaders d c w3 = (Inr headers', w4)
             \<and> setHeaders d headers' req1 = Inl e
           \<longrightarrow> fetch d c input init options w
                 = (Inl e, [Exchange req1, RefreshCall], w4)))"
  using fetch_exchanges_le2 [of d c input init options w]
    fetch_refreshCalls_le1 [of d c input init options w]
    fetch_retry [of c transport d input init req0 w headers w1 req1 response w2 options
      refreshToken w3]
  by blast

text \<open>
  Against a server that marks every response stale: two exchanges, one refresh, and the
  second stale response is returned.
\<close>

theorem fetch_single_retry_witness:
  "exchanges (trace_of (fetch demoExternals
       (demoClient staleTransport (Some (demoRefresh (Some ''tok2'') True)))
       ''/_auth/me'' None None demoWorld))
     = [\<lparr>req_url = ''https://api.example/_auth/me'', req_method = GET,
         req_headers = [(''x-skygear-api-key'', ''key''), (''authorization'', ''bearer old'')],
         req_mode = Cors, req_credentials = SameOriginCredentials, req_body = None\<rparr>,
        \<lparr>req_url = ''https://api.example/_auth/me'', req_method = GET,
         req_headers = [(''x-skygear-api-key'', ''key''), (''authorization'', ''bearer tok2'')],
         req_mode = Cors, req_credentials = SameOriginCredentials, req_body = None\<rparr>]
   \<and> refreshCalls (trace_of (fetch demoExternals
       (demoClient staleTransport (Some (demoRefresh (Some ''tok2'') True)))
       ''/_auth/me'' None None demoWorld)) = 1
   \<and> outcome_of (fetch demoExternals
       (demoClient staleTransport (Some (demoRefresh (Some ''tok2'') True)))
       ''/_auth/me'' None None demoWorld) = Inr staleResponse
   \<and> shouldRefreshToken staleResponse
   \<and> ext (world_of (fetch demoExternals
       (demoClient staleTransport (Some (demoRefresh (Some ''tok2'') True)))
       ''/_auth/me'' None None demoWorld)) = 2"
proof -
  let ?c = "demoClient staleTransport (Some (demoRefresh (Some ''tok2'') True))"
  let ?w2 = "demoWorld\<lparr>ext := 1\<rparr>"
  let ?w3 = "demoWorld\<lparr>accessToken := Some ''tok2'', ext := 1\<rparr>"
  let ?w5 = "demoWorld\<lparr>accessToken := Some ''tok2'', ext := 2\<rparr>"
  let ?h1 = "[(''x-skygear-api-key'', ''key''), (''authorization'', ''bearer old'')]"
  let ?h2 = "[(''x-skygear-api-key'', ''key''), (''authorization'', ''bearer tok2'')]"
  let ?r0 = "\<lparr>req_url = ''https://api.example/_auth/me'', req_method = GET, req_headers = [],
            req_mode = Cors, req_credentials = SameOriginCredentials, req_body = None\<rparr>"
  let ?r1 = "\<lparr>req_url = ''https://api.example/_auth/me'', req_method = GET,
         req_headers = ?h1,
         req_mode = Cors, req_credentials = SameOriginCredentials, req_body = None\<rparr>"
  let ?r2 = "\<lparr>req_url = ''https://api.example/_auth/me'', req_method = GET,
         req_headers = ?h2,
         req_mode = Cors, req_credentials = SameOriginCredentials, req_body = None\<rparr>"
  have hyps:
    "fetchFunction ?c = Some staleTransport \<and> requestClass ?c
     \<and> newRequest demoExternals (endpoint ?c @ ''/'' @ stripLeadingSlash ''/_auth/me'') None
         = Inr ?r0
     \<and> prepareHeaders demoExternals ?c demoWorld = (Inr ?h1, demoWorld)
     \<and> setHeaders demoExternals ?h1 ?r0 = Inr ?r1
     \<and> staleTransport ?r1 demoWorld = (Inr staleResponse, ?w2)
     \<and> resp_headers staleResponse ''x-skygear-try-refresh-token'' = Some ''true''
     \<and> (None :: bool option) \<noteq> Some False
     \<and> refreshTokenFunction ?c = Some (demoRefresh (Some ''tok2'') True)
     \<and> demoRefresh (Some ''tok2'') True ?w2 = (Inr True, ?w3)"
    using demo_newRequest demo_prepareHeaders(1) [of staleTransport _ _ 0]
      demo_setHeaders_old [of "''https://api.example/_auth/me''" GET SameOriginCredentials None]
    by (simp add: demoClient_def demoWorld_def staleTransport_def staleResponse_def
        demoRefresh_def stripLeadingSlash_def)
  have retry:
    "prepareHeaders demoExternals ?c ?w3 = (Inr ?h2, ?w3)
     \<and> setHeaders demoExternals ?h2 ?r1 = Inr ?r2
     \<and> staleTransport ?r2 ?w3 = (Inr staleResponse, ?w5)"
    using demo_prepareHeaders(2) [of staleTransport _ _ 1]
      demo_setHeaders_new [of "''https://api.example/_auth/me''" GET SameOriginCredentials None]
    by (simp add: demoWorld_def staleTransport_def)
  have "fetch demoExternals ?c ''/_auth/me'' None None demoWorld
          = (Inr staleResponse, [Exchange ?r1, RefreshCall, Exchange ?r2], ?w5)"
    using fetch_single_retry [of demoExternals ?c "''/_auth/me''" None None demoWorld
        staleTransport ?r0 ?h1 demoWorld ?r1 staleResponse ?w2
        "demoRefresh (Some ''tok2'') True" ?w3 ?h2 ?w3 ?r2 "Inr staleResponse" ?w5
        "Error []"] hyps retry
    by blast
  then show ?thesis
    by (simp add: trace_of_def outcome_of_def world_of_def demoWorld_def
        shouldRefreshToken_def staleResponse_def)
qed

text \<open>
  Claim C1 as it was stated fails: its three conditions do not make the retry happen.
  With a supplier of extra session info that rejects when the headers are prepared for
  the retry, and with a refreshed token that holds a line feed, so that
  \<^verbatim>\<open>headers.set\<close> throws, the call ends after one exchange and one refresh call that
  resolved to true.
\<close>

theorem fetch_retry_not_issued_counterexample:
  "fetch demoExternals flakyClient ''/_auth/me'' None None demoWorld
     = (Inl (Error ''boom''),
        [Exchange
           \<lparr>req_url = ''https://api.example/_auth/me'', req_method = GET,
            req_headers = [(''x-skygear-api-key'', ''key''),
                           (''authorization'', ''bearer old'')],
            req_mode = Cors, req_credentials = SameOriginCredentials, req_body = None\<rparr>,
         RefreshCall],
        demoWorld\<lparr>accessToken := Some ''tok2'', ext := 1\<rparr>)
   \<and> fetch demoExternals
         (demoClient staleTransport
            (Some (demoRefresh (Some (''a'' @ [CHR 0x0A] @ ''b'')) True)))
         ''/_auth/me'' None None demoWorld
     = (Inl (TypeError ''invalid header value''),
        [Exchange
           \<lparr>req_url = ''https://api.example/_auth/me'', req_method = GET,
            req_headers = [(''x-skygear-api-key'', ''key''),
                           (''authorization'', ''bearer old'')],
            req_mode = Cors, req_credentials = SameOriginCredentials, req_body = None\<rparr>,
         RefreshCall],
        demoWorld\<lparr>accessToken := Some (''a'' @ [CHR 0x0A] @ ''b''), ext := 1\<rparr>)
   \<and> shouldRefreshToken staleResponse
   \<and> refreshTokenFunction flakyClient = Some (demoRefresh (Some ''tok2'') True)
   \<and> demoRefresh (Some ''tok2'') True (demoWorld\<lparr>ext := 1\<rparr>)
       = (Inr True, demoWorld\<lparr>accessToken := Some ''tok2'', ext := 1\<rparr>)"
proof -
  let ?r0 = "\<lparr>req_url = ''https://api.example/_auth/me'', req_method = GET, req_headers = [],
            req_mode = Cors, req_credentials = SameOriginCredentials, req_body = None\<rparr>"
  have a: "fetch demoExternals flakyClient ''/_auth/me'' None None demoWorld
     = (Inl (Error ''boom''),
        [Exchange
           \<lparr>req_url = ''https://api.example/_auth/me'', req_method = GET,
            req_headers = [(''x-skygear-api-key'', ''key''),
                           (''authorization'', ''bearer old'')],
            req_mode = Cors, req_credentials = SameOriginCredentials, req_body = None\<rparr>,
         RefreshCall],
        demoWorld\<lparr>accessToken := Some ''tok2'', ext := 1\<rparr>)"
    using demo_newRequest
      demo_setHeaders_old [of "''https://api.example/_auth/me''" GET SameOriginCredentials None]
    by (simp add: fetch_def flakyClient_def demoClient_def demoWorld_def prepareHeaders_def
        flakySupplier_def staleTransport_def staleResponse_def demoRefresh_def
        shouldRefreshToken_def stripLeadingSlash_def Let_def)
  have s: "setHeaders demoExternals
             [(''x-skygear-api-key'', ''key''),
              (''authorization'', ''bearer '' @ ''a'' @ [CHR 0x0A] @ ''b'')]
             \<lparr>req_url = ''https://api.example/_auth/me'', req_method = GET,
              req_headers = [(''x-skygear-api-key'', ''key''),
                             (''authorization'', ''bearer old'')],
              req_mode = Cors, req_credentials = SameOriginCredentials, req_body = None\<rparr>
           = Inl (TypeError ''invalid header value'')"
    by (simp add: demo_headers headersSet_invalid normalizeValue_def isHTTPWhitespace_def)
  have b: "fetch demoExternals
         (demoClient staleTransport
            (Some (demoRefresh (Some (''a'' @ [CHR 0x0A] @ ''b'')) True)))
         ''/_auth/me'' None None demoWorld
     = (Inl (TypeError ''invalid header value''),
        [Exchange
           \<lparr>req_url = ''https://api.example/_auth/me'', req_method = GET,
            req_headers = [(''x-skygear-api-key'', ''key''),
                           (''authorization'', ''bearer old'')],
            req_mode = Cors, req_credentials = SameOriginCredentials, req_body = None\<rparr>,
         RefreshCall],
        demoWorld\<lparr>accessToken := Some (''a'' @ [CHR 0x0A] @ ''b''), ext := 1\<rparr>)"
    using demo_newRequest s
      demo_setHeaders_old [of "''https://api.example/_auth/me''" GET SameOriginCredentials None]
    by (simp add: fetch_def demoClient_def demoWorld_def prepareHeaders_def
        staleTransport_def staleResponse_def demoRefresh_def
        shouldRefreshToken_def stripLeadingSlash_def Let_def)
  have c: "shouldRefreshToken staleResponse"
    by (simp add: shouldRefreshToken_def staleResponse_def)
  have d: "refreshTokenFunction flakyClient = Some (demoRefresh (Some ''tok2'') True)
   \<and> demoRefresh (Some ''tok2'') True (demoWorld\<lparr>ext := 1\<rparr>)
       = (Inr True, demoWorld\<lparr>accessToken := Some ''tok2'', ext := 1\<rparr>)"
    by (simp add: flakyClient_def demoClient_def demoRefresh_def demoWorld_def)
  from a b c d show ?thesis by blast
qed




text \<open>
  Claim C7. When the first response carries the stale-token header \<^verbatim>\<open>true\<close>, automatic
  refresh is enabled and the refresh capability resolves to false, \<open>fetch\<close> returns the
  first response after one exchange and one refresh call, and \<open>request\<close> yields the
  decoding of that first response.
\<close>

theorem refresh_declined_no_retry:
  "fetchFunction c = Some transport \<and> requestClass c
     \<and> newRequest d (endpoint c @ ''/'' @ stripLeadingSlash input) init = Inr req0
     \<and> prepareHeaders d c w = (Inr headers, w1)
     \<and> setHeaders d headers req0 = Inr req1
     \<and> transport req1 w1 = (Inr response, w2)
     \<and> resp_headers response ''x-skygear-try-refresh-token'' = Some ''true''
     \<and> options \<noteq> Some False
     \<and> refreshTokenFunction c = Some refreshToken
     \<and> refreshToken w2 = (Inr False, w3)
   \<longrightarrow> fetch d c input init options w = (Inr response, [Exchange req1, RefreshCall], w3)
       \<and> (input = requestPath d path ropts \<and> init = Some (requestInit method ropts)
            \<and> options = autoRefreshToken ropts
          \<longrightarrow> request d c method path ropts w
                = (decodeResponse d response, [Exchange req1, RefreshCall], w3))"
  using fetch_declined [of c transport d input init req0 w headers w1 req1 response w2 options
      refreshToken w3]
    request_of_fetch [of d c path ropts "method" w response "[Exchange req1, RefreshCall]" w3]
  by blast

text \<open>The request that is constructed for a post with a JSON payload.\<close>

lemma demo_newRequest_post:
  "newRequest demoExternals u (Some (requestInit POST (jsonOnly payload)))
     = Inr \<lparr>req_url = u, req_method = POST,
            req_headers = [(''content-type'', ''application/json'')],
            req_mode = Cors, req_credentials = Include,
            req_body = JSON_stringify (JObj payload)\<rparr>"
proof -
  have a: "headersAppend demoExternals Cors ''content-type'' ''application/json'' []
        = Inr [(''content-type'', ''application/json'')]"
    by (simp add: headersAppend_def headerPair_accepts header_names_valid header_names_lower
        demo_values isHeaderValue_def demo_guard)
  have b: "headersGet [(''content-type'', ''application/json'')] ''content-type''
             = Some ''application/json''"
    by (simp add: headersGet_def header_names_lower)
  have v: "validURL demoExternals u" by (simp add: demoExternals_def)
  show ?thesis
    using a b v by (simp add: newRequest_def requestInit_def jsonOnly_def)
qed

lemma demo_setHeaders_post:
  "setHeaders demoExternals [(''x-skygear-api-key'', ''key''), (''authorization'', ''bearer old'')]
     \<lparr>req_url = u, req_method = m, req_headers = [(''content-type'', ''application/json'')],
      req_mode = Cors, req_credentials = cr, req_body = b\<rparr>
   = Inr \<lparr>req_url = u, req_method = m,
          req_headers = [(''content-type'', ''application/json''),
                         (''x-skygear-api-key'', ''key''),
                         (''authorization'', ''bearer old'')],
          req_mode = Cors, req_credentials = cr, req_body = b\<rparr>"
  by (simp add: demo_headers)

text \<open>
  Against the server that marks every response stale, with a refresh capability that
  resolves to false: one exchange, and the error of the first response is the outcome.
\<close>

theorem refresh_declined_no_retry_witness:
  "request demoExternals (demoClient staleTransport (Some (demoRefresh None False))) POST
     ''/_auth/me'' (jsonOnly []) demoWorld
   = (decodeResponse demoExternals staleResponse,
      [Exchange
         \<lparr>req_url = ''https://api.example/_auth/me'', req_method = POST,
          req_headers = [(''content-type'', ''application/json''),
                         (''x-skygear-api-key'', ''key''),
                         (''authorization'', ''bearer old'')],
          req_mode = Cors, req_credentials = Include, req_body = Some (JObj [])\<rparr>,
       RefreshCall],
      demoWorld\<lparr>accessToken := None, ext := 1\<rparr>)
   \<and> decodeResponse demoExternals staleResponse
       = Inl (SkygearError ''server'' ''Server'' ''Error''
                (Some (JObj [(''name'', JStr ''NotAuthenticated'')])))"
proof -
  let ?c = "demoClient staleTransport (Some (demoRefresh None False))"
  let ?o = "jsonOnly []"
  let ?w2 = "demoWorld\<lparr>ext := 1\<rparr>"
  let ?w3 = "demoWorld\<lparr>accessToken := None, ext := 1\<rparr>"
  let ?h1 = "[(''x-skygear-api-key'', ''key''), (''authorization'', ''bearer old'')]"
  let ?input = "requestPath demoExternals ''/_auth/me'' ?o"
  let ?init = "Some (requestInit POST ?o)"
  let ?r0 = "\<lparr>req_url = ''https://api.example/_auth/me'', req_method = POST,
          req_headers = [(''content-type'', ''application/json'')],
          req_mode = Cors, req_credentials = Include, req_body = Some (JObj [])\<rparr>"
  let ?r1 = "\<lparr>req_url = ''https://api.example/_auth/me'', req_method = POST,
          req_headers = [(''content-type'', ''application/json''),
                         (''x-skygear-api-key'', ''key''),
                         (''authorization'', ''bearer old'')],
          req_mode = Cors, req_credentials = Include, req_body = Some (JObj [])\<rparr>"
  have path: "?input = ''/_auth/me''"
    by (simp add: requestPath_def jsonOnly_def)
  have n: "newRequest demoExternals (endpoint ?c @ ''/'' @ stripLeadingSlash ?input) ?init
             = Inr ?r0"
    using demo_newRequest_post [of "''https://api.example/_auth/me''" "[]"]
    by (simp add: path demoClient_def stripLeadingSlash_def JSON_stringify_def)
  have p: "prepareHeaders demoExternals ?c demoWorld = (Inr ?h1, demoWorld)"
    using demo_prepareHeaders(1) [of staleTransport _ _ 0] by (simp add: demoWorld_def)
  have s: "setHeaders demoExternals ?h1 ?r0 = Inr ?r1"
    by (rule demo_setHeaders_post)
  have hyps:
    "fetchFunction ?c = Some staleTransport \<and> requestClass ?c
     \<and> newRequest demoExternals (endpoint ?c @ ''/'' @ stripLeadingSlash ?input) ?init = Inr ?r0
     \<and> prepareHeaders demoExternals ?c demoWorld = (Inr ?h1, demoWorld)
     \<and> setHeaders demoExternals ?h1 ?r0 = Inr ?r1
     \<and> staleTransport ?r1 demoWorld = (Inr staleResponse, ?w2)
     \<and> resp_headers staleResponse ''x-skygear-try-refresh-token'' = Some ''true''
     \<and> autoRefreshToken ?o \<noteq> Some False
     \<and> refreshTokenFunction ?c = Some (demoRefresh None False)
     \<and> demoRefresh None False ?w2 = (Inr False, ?w3)"
    unfolding n p s
    by (simp add: demoClient_def demoWorld_def staleTransport_def staleResponse_def
        demoRefresh_def jsonOnly_def)
  have "request demoExternals ?c POST ''/_auth/me'' ?o demoWorld
          = (decodeResponse demoExternals staleResponse, [Exchange ?r1, RefreshCall], ?w3)"
    using refresh_declined_no_retry [of ?c staleTransport demoExternals ?input ?init ?r0
        demoWorld ?h1 demoWorld ?r1 staleResponse ?w2 "autoRefreshToken ?o"
        "demoRefresh None False" ?w3 "''/_auth/me''" ?o POST] hyps
    by blast
  moreover have "decodeResponse demoExternals staleResponse
       = Inl (SkygearError ''server'' ''Server'' ''Error''
                (Some (JObj [(''name'', JStr ''NotAuthenticated'')])))"
    by (simp add: decodeResponse_def staleResponse_def demoExternals_def)
  ultimately show ?thesis by simp
qed

section \<open>refresh\<close>

lemma refresh_trace:
  "trace_of (refresh d c refreshToken w)
     = trace_of (fetch d c ''/_auth/refresh''
         (Some (requestInit POST
            \<lparr>json = Some [(''refresh_token'', JStr refreshToken)], query = None,
             autoRefreshToken = Some False\<rparr>))
         (Some False) w)"
  by (simp add: refresh_def post_def trace_of_request requestPath_def)

lemma refresh_world:
  "world_of (refresh d c refreshToken w)
     = world_of (fetch d c ''/_auth/refresh''
         (Some (requestInit POST
            \<lparr>json = Some [(''refresh_token'', JStr refreshToken)], query = None,
             autoRefreshToken = Some False\<rparr>))
         (Some False) w)"
  by (simp add: refresh_def post_def world_of_request requestPath_def)

text \<open>
  Claim C10. A call of \<open>refresh\<close> never invokes the refresh capability and issues at
  most one exchange, a POST to \<^verbatim>\<open>/_auth/refresh\<close> with the refresh token as its body,
  whatever the client's configuration and whatever the transport answers. When the
  transport is invoked, that one exchange is all that is observed, and the world is the
  one the transport left.
\<close>

theorem refresh_never_refreshes:
  "refreshCalls (trace_of (refresh d c refreshToken w)) = 0
   \<and> length (exchanges (trace_of (refresh d c refreshToken w))) \<le> 1
   \<and> (\<forall>r \<in> set (exchanges (trace_of (refresh d c refreshToken w))).
         req_url r = endpoint c @ ''/_auth/refresh'' \<and> req_method r = POST
         \<and> req_body r = Some (JObj [(''refresh_token'', JStr refreshToken)]))
   \<and> (fetchFunction c = Some transport \<and> requestClass c
        \<and> newRequest d (endpoint c @ ''/_auth/refresh'')
             (Some (requestInit POST
                \<lparr>json = Some [(''refresh_token'', JStr refreshToken)], query = None,
                 autoRefreshToken = Some False\<rparr>)) = Inr req0
        \<and> prepareHeaders d c w = (Inr headers, w1)
        \<and> setHeaders d headers req0 = Inr req
        \<and> transport req w1 = (out, w2)
      \<longrightarrow> trace_of (refresh d c refreshToken w) = [Exchange req]
          \<and> world_of (refresh d c refreshToken w) = w2)"
proof -
  let ?init = "Some (requestInit POST
            \<lparr>json = Some [(''refresh_token'', JStr refreshToken)], query = None,
             autoRefreshToken = Some False\<rparr>)"
  let ?f = "fetch d c ''/_auth/refresh'' ?init (Some False) w"
  have a: "refreshCalls (trace_of ?f) = 0 \<and> length (exchanges (trace_of ?f)) \<le> 1"
    by (rule fetch_disabled)
  have b: "req_url r = endpoint c @ ''/_auth/refresh'' \<and> req_method r = POST
         \<and> req_body r = Some (JObj [(''refresh_token'', JStr refreshToken)])"
    if "r \<in> set (exchanges (trace_of ?f))" for r
    using fetch_exchange_fields [OF that]
    by (simp add: requestInit_def stripLeadingSlash_def JSON_stringify_def)
  have c: "trace_of ?f = [Exchange req] \<and> world_of ?f = w2"
    if "fetchFunction c = Some transport" "requestClass c"
      "newRequest d (endpoint c @ ''/_auth/refresh'') ?init = Inr req0"
      "prepareHeaders d c w = (Inr headers, w1)"
      "setHeaders d headers req0 = Inr req"
      "transport req w1 = (out, w2)"
  proof -
    have "newRequest d (endpoint c @ ''/'' @ stripLeadingSlash ''/_auth/refresh'') ?init
            = Inr req0"
      using that(3) by (simp add: stripLeadingSlash_def)
    from fetch_disabled_once [OF that(1,2) this that(4,5,6)]
    show ?thesis by (simp add: trace_of_def world_of_def)
  qed
  from a b c show ?thesis
    unfolding refresh_trace refresh_world by blast
qed

text \<open>
  With a refresh capability configured and a server that marks every response stale,
  \<open>refresh\<close> makes one exchange and leaves the access token as it was.
\<close>

theorem refresh_never_refreshes_witness:
  "trace_of (refresh demoExternals
       (demoClient staleTransport (Some (demoRefresh (Some ''tok2'') True))) ''rt'' demoWorld)
     = [Exchange
          \<lparr>req_url = ''https://api.example/_auth/refresh'', req_method = POST,
           req_headers = [(''content-type'', ''application/json''),
                          (''x-skygear-api-key'', ''key''),
                          (''authorization'', ''bearer old'')],
           req_mode = Cors, req_credentials = Include,
           req_body = Some (JObj [(''refresh_token'', JStr ''rt'')])\<rparr>]
   \<and> world_of (refresh demoExternals
       (demoClient staleTransport (Some (demoRefresh (Some ''tok2'') True))) ''rt'' demoWorld)
     = demoWorld\<lparr>ext := 1\<rparr>
   \<and> shouldRefreshToken staleResponse"
proof -
  let ?c = "demoClient staleTransport (Some (demoRefresh (Some ''tok2'') True))"
  let ?h = "[(''x-skygear-api-key'', ''key''), (''authorization'', ''bearer old'')]"
  let ?r0 = "\<lparr>req_url = ''https://api.example/_auth/refresh'', req_method = POST,
           req_headers = [(''content-type'', ''application/json'')],
           req_mode = Cors, req_credentials = Include,
           req_body = Some (JObj [(''refresh_token'', JStr ''rt'')])\<rparr>"
  let ?req = "\<lparr>req_url = ''https://api.example/_auth/refresh'', req_method = POST,
           req_headers = [(''content-type'', ''application/json''),
                          (''x-skygear-api-key'', ''key''),
                          (''authorization'', ''bearer old'')],
           req_mode = Cors, req_credentials = Include,
           req_body = Some (JObj [(''refresh_token'', JStr ''rt'')])\<rparr>"
  have n: "newRequest demoExternals (endpoint ?c @ ''/_auth/refresh'')
             (Some (requestInit POST
                \<lparr>json = Some [(''refresh_token'', JStr ''rt'')], query = None,
                 autoRefreshToken = Some False\<rparr>)) = Inr ?r0"
    using demo_newRequest_post [of "''https://api.example/_auth/refresh''"
        "[(''refresh_token'', JStr ''rt'')]"]
    by (simp add: requestInit_def jsonOnly_def demoClient_def JSON_stringify_def)
  have p: "prepareHeaders demoExternals ?c demoWorld = (Inr ?h, demoWorld)"
    using demo_prepareHeaders(1) [of staleTransport _ _ 0] by (simp add: demoWorld_def)
  have s: "setHeaders demoExternals ?h ?r0 = Inr ?req"
    by (rule demo_setHeaders_post)
  have hyps: "fetchFunction ?c = Some staleTransport \<and> requestClass ?c
        \<and> prepareHeaders demoExternals ?c demoWorld = (Inr ?h, demoWorld)
        \<and> setHeaders demoExternals ?h ?r0 = Inr ?req
        \<and> staleTransport ?req demoWorld = (Inr staleResponse, demoWorld\<lparr>ext := 1\<rparr>)"
    unfolding p s
    by (simp add: demoClient_def demoWorld_def staleTransport_def)
  have "trace_of (refresh demoExternals ?c ''rt'' demoWorld) = [Exchange ?req]
          \<and> world_of (refresh demoExternals ?c ''rt'' demoWorld) = demoWorld\<lparr>ext := 1\<rparr>"
    using refresh_never_refreshes [of demoExternals ?c "''rt''" demoWorld staleTransport ?r0
        ?h demoWorld ?req "Inr staleResponse" "demoWorld\<lparr>ext := 1\<rparr>"] n hyps
    by blast
  moreover have "shouldRefreshToken staleResponse"
    by (simp add: shouldRefreshToken_def staleResponse_def)
  ultimately show ?thesis by simp
qed

section \<open>The envelope decoder\<close>

lemma decodeResponse_object:
  "json_body response = Some (JObj kvs) \<Longrightarrow>
   decodeResponse d response =
     (if truthy (valueUnder kvs ''result'') then Inr (valueUnder kvs ''result'')
      else if truthy (valueUnder kvs ''error'')
        then Inl (decodeError d (Some (valueUnder kvs ''error'')))
      else Inl (decodeError d None))"
  by (simp add: decodeResponse_def valueUnder_def split: option.splits)

lemma decodeResponse_status:
  "json_body response \<noteq> None \<Longrightarrow>
   decodeResponse d (response\<lparr>status := s\<rparr>) = decodeResponse d response"
  by (auto simp: decodeResponse_def split: option.splits)

text \<open>
  Claim C4. For a response whose body parses to an object: a truthy value under
  \<^verbatim>\<open>result\<close> is returned as it is; otherwise a truthy value under \<^verbatim>\<open>error\<close> makes the
  call fail with \<^verbatim>\<open>decodeError\<close> of that value; otherwise the call fails with
  \<^verbatim>\<open>decodeError()\<close>. The status of the response does not enter, and \<open>request\<close>
  yields this decoding of the response that \<open>fetch\<close> returned.
\<close>

theorem envelope_decoding:
  "json_body response = Some (JObj kvs) \<longrightarrow>
     (truthy (valueUnder kvs ''result'')
        \<longrightarrow> decodeResponse d response = Inr (valueUnder kvs ''result''))
   \<and> (\<not> truthy (valueUnder kvs ''result'') \<and> truthy (valueUnder kvs ''error'')
        \<longrightarrow> decodeResponse d response = Inl (decodeError d (Some (valueUnder kvs ''error''))))
   \<and> (\<not> truthy (valueUnder kvs ''result'') \<and> \<not> truthy (valueUnder kvs ''error'')
        \<longrightarrow> decodeResponse d response = Inl (decodeError d None))
   \<and> decodeResponse d (response\<lparr>status := s\<rparr>) = decodeResponse d response
   \<and> (fetch d c (requestPath d path options) (Some (requestInit method options))
          (autoRefreshToken options) w = (Inr response, tr, w')
        \<longrightarrow> request d c method path options w = (decodeResponse d response, tr, w'))"
  using decodeResponse_object [of response kvs d] decodeResponse_status [of response d s]
    request_of_fetch [of d c path options "method" w response tr w']
  by auto

text \<open>
  A response with a result object, decoded to the same value under status 200 and 500; a
  response with an error object; and an envelope whose result is \<^verbatim>\<open>null\<close>.
\<close>

theorem envelope_decoding_witness:
  "decodeResponse demoExternals okResponse = Inr (JObj [(''access_token'', JStr ''tok2'')])
   \<and> decodeResponse demoExternals (okResponse\<lparr>status := 500\<rparr>)
       = Inr (JObj [(''access_token'', JStr ''tok2'')])
   \<and> decodeResponse demoExternals staleResponse
       = Inl (decodeError demoExternals (Some (JObj [(''name'', JStr ''NotAuthenticated'')])))
   \<and> decodeResponse demoExternals (okResponse\<lparr>json_body := Some (JObj [(''result'', JNull)])\<rparr>)
       = Inl (decodeError demoExternals None)"
proof -
  let ?c = "demoClient okTransport None"
  have "json_body okResponse
          = Some (JObj [(''result'', JObj [(''access_token'', JStr ''tok2'')])])"
    by (simp add: okResponse_def)
  with envelope_decoding [of okResponse
      "[(''result'', JObj [(''access_token'', JStr ''tok2'')])]" demoExternals 500
      ?c "[]" "jsonOnly []" POST demoWorld "[]" demoWorld]
  have a: "decodeResponse demoExternals okResponse
             = Inr (JObj [(''access_token'', JStr ''tok2'')])
           \<and> decodeResponse demoExternals (okResponse\<lparr>status := 500\<rparr>)
             = Inr (JObj [(''access_token'', JStr ''tok2'')])"
    by (auto simp: valueUnder_def)
  have "json_body staleResponse
          = Some (JObj [(''error'', JObj [(''name'', JStr ''NotAuthenticated'')])])"
    by (simp add: staleResponse_def)
  with envelope_decoding [of staleResponse
      "[(''error'', JObj [(''name'', JStr ''NotAuthenticated'')])]" demoExternals 401
      ?c "[]" "jsonOnly []" POST demoWorld "[]" demoWorld]
  have b: "decodeResponse demoExternals staleResponse
       = Inl (decodeError demoExternals (Some (JObj [(''name'', JStr ''NotAuthenticated'')])))"
    by (auto simp: valueUnder_def)
  have "json_body (okResponse\<lparr>json_body := Some (JObj [(''result'', JNull)])\<rparr>)
          = Some (JObj [(''result'', JNull)])"
    by simp
  with envelope_decoding [of "okResponse\<lparr>json_body := Some (JObj [(''result'', JNull)])\<rparr>"
      "[(''result'', JNull)]" demoExternals 200
      ?c "[]" "jsonOnly []" POST demoWorld "[]" demoWorld]
  have c: "decodeResponse demoExternals
             (okResponse\<lparr>json_body := Some (JObj [(''result'', JNull)])\<rparr>)
       = Inl (decodeError demoExternals None)"
    by (auto simp: valueUnder_def)
  from a b c show ?thesis by simp
qed

text \<open>
  Claim C5. For a response whose body does not parse: a status outside the interval
  from 200 up to but not including 300 gives the \<^verbatim>\<open>unexpected status code\<close> error with
  the status in its info, a status inside gives \<^verbatim>\<open>failed to decode response JSON\<close>;
  either way the outcome is an error, and it is the outcome of \<open>request\<close>.
\<close>

theorem unparsable_body:
  "json_body response = None \<longrightarrow>
     (status response < 200 \<or> 300 \<le> status response
        \<longrightarrow> decodeResponse d response
            = Inl (SkygearError ''unexpected status code'' ''InternalError'' ''UnexpectedError''
                     (Some (JObj [(''status_code'', JNum (of_int (status response)))]))))
   \<and> (200 \<le> status response \<and> status response < 300
        \<longrightarrow> decodeResponse d response
            = Inl (SkygearError ''failed to decode response JSON'' ''InternalError''
                     ''UnexpectedError'' None))
   \<and> isl (decodeResponse d response)
   \<and> (fetch d c (requestPath d path options) (Some (requestInit method options))
          (autoRefreshToken options) w = (Inr response, tr, w')
        \<longrightarrow> request d c method path options w = (decodeResponse d response, tr, w'))"
  using request_of_fetch [of d c path options "method" w response tr w']
  by (auto simp: decodeResponse_def)

text \<open>
  An unparsable body under status 502 and under status 204.
\<close>

theorem unparsable_body_witness:
  "decodeResponse demoExternals \<lparr>status = 502, resp_headers = (\<lambda>name. None), json_body = None\<rparr>
     = Inl (SkygearError ''unexpected status code'' ''InternalError'' ''UnexpectedError''
              (Some (JObj [(''status_code'', JNum 502)])))
   \<and> decodeResponse demoExternals \<lparr>status = 204, resp_headers = (\<lambda>name. None), json_body = None\<rparr>
     = Inl (SkygearError ''failed to decode response JSON'' ''InternalError''
              ''UnexpectedError'' None)"
  using unparsable_body [of "\<lparr>status = 502, resp_headers = (\<lambda>name. None), json_body = None\<rparr>"
      demoExternals "demoClient okTransport None" "[]" "jsonOnly []" POST demoWorld "[]" demoWorld]
    unparsable_body [of "\<lparr>status = 204, resp_headers = (\<lambda>name. None), json_body = None\<rparr>"
      demoExternals "demoClient okTransport None" "[]" "jsonOnly []" POST demoWorld "[]" demoWorld]
  by auto

section \<open>Threading the authentication session token\<close>

lemma post_exchange_fields:
  assumes "r \<in> set (exchanges (trace_of (post d c path (jsonOnly payload) w)))"
  shows "req_body r = JSON_stringify (JObj payload) \<and> req_method r = POST
         \<and> req_url r = endpoint c @ ''/'' @ stripLeadingSlash path"
proof -
  have "r \<in> set (exchanges (trace_of (fetch d c (requestPath d path (jsonOnly payload))
            (Some (requestInit POST (jsonOnly payload)))
            (autoRefreshToken (jsonOnly payload)) w)))"
    using assms by (simp add: post_def trace_of_request)
  from fetch_exchange_fields [OF this] show ?thesis
    by (simp add: requestInit_def requestPath_def jsonOnly_def)
qed

lemma post_exchanges_nonempty:
  "fetchFunction c = Some transport \<Longrightarrow> requestClass c \<Longrightarrow> \<forall>u. validURL d u \<Longrightarrow>
   prepareHeaders d c w = (Inr headers, w1) \<Longrightarrow>
   \<forall>kv \<in> set headers. isHeaderValue (normalizeValue (snd kv)) \<Longrightarrow>
   exchanges (trace_of (post d c path options w)) \<noteq> []"
  by (simp add: post_def request_exchanges_nonempty)

lemma fetch_plain:
  assumes "fetchFunction c = Some transport" "requestClass c"
    "newRequest d (endpoint c @ ''/'' @ stripLeadingSlash input) init = Inr req0"
    "prepareHeaders d c w = (Inr headers, w1)"
    "setHeaders d headers req0 = Inr req"
    "transport req w1 = (Inr response, w2)"
    "\<not> shouldRefreshToken response"
  shows "fetch d c input init options w = (Inr response, [Exchange req], w2)"
  using assms by (simp add: fetch_def Let_def)

text \<open>What the concrete client exchanges when it posts a payload to a server that answers.\<close>

lemma demo_post_bodies:
  "map req_body (exchanges (trace_of (post demoExternals (demoClient okTransport None) path
       (jsonOnly payload) \<lparr>accessToken = Some ''old'', authenticationSession = s, ext = n\<rparr>)))
     = [JSON_stringify (JObj payload)]"
proof -
  let ?c = "demoClient okTransport None"
  let ?w = "\<lparr>accessToken = Some ''old'', authenticationSession = s, ext = n\<rparr>"
  let ?u = "endpoint ?c @ ''/'' @ stripLeadingSlash (requestPath demoExternals path (jsonOnly payload))"
  let ?h = "[(''x-skygear-api-key'', ''key''), (''authorization'', ''bearer old'')]"
  let ?ra = "\<lparr>req_url = ?u, req_method = POST,
            req_headers = [(''content-type'', ''application/json'')],
            req_mode = Cors, req_credentials = Include,
            req_body = JSON_stringify (JObj payload)\<rparr>"
  let ?rb = "\<lparr>req_url = ?u, req_method = POST,
          req_headers = [(''content-type'', ''application/json''),
                         (''x-skygear-api-key'', ''key''),
                         (''authorization'', ''bearer old'')],
          req_mode = Cors, req_credentials = Include,
          req_body = JSON_stringify (JObj payload)\<rparr>"
  have cfg: "fetchFunction ?c = Some okTransport" "requestClass ?c"
    by (simp_all add: demoClient_def)
  have n: "newRequest demoExternals ?u (Some (requestInit POST (jsonOnly payload))) = Inr ?ra"
    by (rule demo_newRequest_post)
  have p: "prepareHeaders demoExternals ?c ?w = (Inr ?h, ?w)"
    by (rule demo_prepareHeaders(1))
  have s: "setHeaders demoExternals ?h ?ra = Inr ?rb"
    by (rule demo_setHeaders_post)
  have t: "okTransport ?rb ?w = (Inr okResponse, ?w\<lparr>ext := Suc n\<rparr>)"
    by (simp add: okTransport_def)
  have q: "\<not> shouldRefreshToken okResponse"
    by (simp add: shouldRefreshToken_def okResponse_def)
  from fetch_plain [OF cfg n p s t q, of "autoRefreshToken (jsonOnly payload)"]
  have f: "trace_of (fetch demoExternals ?c (requestPath demoExternals path (jsonOnly payload))
             (Some (requestInit POST (jsonOnly payload))) (autoRefreshToken (jsonOnly payload)) ?w)
           = [Exchange ?rb]"
    by (simp add: trace_of_def)
  show ?thesis
    by (simp add: post_def trace_of_request f)
qed

lemma trace_of_postAndReturnAuthResponse [simp]:
  "trace_of (postAndReturnAuthResponse d c path options w) = trace_of (post d c path options w)"
  by (simp add: postAndReturnAuthResponse_def)

lemma carries_session:
  "req_body r = JSON_stringify
      (JObj (makePayloadWithAuthenticationSessionToken w payload)) \<Longrightarrow>
   authenticationSession w = Some session \<Longrightarrow>
   carries r ''authn_session_token'' (JStr (token session))"
proof -
  assume b: "req_body r = JSON_stringify
      (JObj (makePayloadWithAuthenticationSessionToken w payload))"
    and s: "authenticationSession w = Some session"
  have "map_of (map (\<lambda>kv. (fst kv, wire (snd kv)))
          (filter (\<lambda>kv. snd kv \<noteq> JUndefined) (put k (JStr t) xs))) k = Some (JStr t)" for k t xs
    by (induction xs) auto
  then show ?thesis
    using b s
    by (simp add: carries_def JSON_stringify_def makePayloadWithAuthenticationSessionToken_def)
qed

lemma omits_plain:
  "req_body r = JSON_stringify (JObj payload) \<Longrightarrow> k \<notin> fst ` set payload \<Longrightarrow> omits r k"
proof -
  assume b: "req_body r = JSON_stringify (JObj payload)" and k: "k \<notin> fst ` set payload"
  have "map_of (map (\<lambda>kv. (fst kv, wire (snd kv)))
          (filter (\<lambda>kv. snd kv \<noteq> JUndefined) xs)) k = None" if "k \<notin> fst ` set xs" for xs
    using that by (induction xs) auto
  from this [OF k] show ?thesis
    using b by (simp add: omits_def JSON_stringify_def)
qed

lemma omits_no_session:
  "req_body r = JSON_stringify
      (JObj (makePayloadWithAuthenticationSessionToken w payload)) \<Longrightarrow>
   authenticationSession w = None \<Longrightarrow> k \<notin> fst ` set payload \<Longrightarrow> omits r k"
  using omits_plain [of r payload k]
  by (simp add: makePayloadWithAuthenticationSessionToken_def)

lemma mfaStep_body:
  assumes "r \<in> set (exchanges (trace_of (mfaStep d c call w)))"
  shows "\<exists>payload. ''authn_session_token'' \<notin> fst ` set payload
           \<and> req_body r = JSON_stringify
                 (JObj (makePayloadWithAuthenticationSessionToken w payload))"
proof (cases call)
  case (ActivateTOTP otp)
  with assms post_exchange_fields
    [of r d c "''/_auth/mfa/totp/activate''"
      "makePayloadWithAuthenticationSessionToken w [(''otp'', JStr otp)]" w]
  have "req_body r = JSON_stringify
          (JObj (makePayloadWithAuthenticationSessionToken w [(''otp'', JStr otp)]))"
    by (simp add: activateTOTP_def)
  then show ?thesis by (intro exI [of _ "[(''otp'', JStr otp)]"]) simp
next
  case (AuthenticateWithTOTP options)
  let ?p = "[(''request_bearer_token'', optBool (totp_skipMFAForCurrentDevice options)),
             (''otp'', JStr (totp_otp options))]"
  from AuthenticateWithTOTP assms post_exchange_fields
    [of r d c "''/_auth/mfa/totp/authenticate''"
      "makePayloadWithAuthenticationSessionToken w ?p" w]
  have "req_body r = JSON_stringify (JObj (makePayloadWithAuthenticationSessionToken w ?p))"
    by (simp add: authenticateWithTOTP_def)
  then show ?thesis by (intro exI [of _ ?p]) simp
next
  case (TriggerOOB authenticatorID)
  let ?p = "[(''authenticator_id'', optStr authenticatorID)]"
  from TriggerOOB assms post_exchange_fields
    [of r d c "''/_auth/mfa/oob/trigger''" "makePayloadWithAuthenticationSessionToken w ?p" w]
  have "req_body r = JSON_stringify (JObj (makePayloadWithAuthenticationSessionToken w ?p))"
    by (simp add: triggerOOB_def)
  then show ?thesis by (intro exI [of _ ?p]) simp
next
  case (ActivateOOB code)
  let ?p = "[(''code'', JStr code)]"
  from ActivateOOB assms post_exchange_fields
    [of r d c "''/_auth/mfa/oob/activate''" "makePayloadWithAuthenticationSessionToken w ?p" w]
  have "req_body r = JSON_stringify (JObj (makePayloadWithAuthenticationSessionToken w ?p))"
    by (simp add: activateOOB_def)
  then show ?thesis by (intro exI [of _ ?p]) simp
next
  case (AuthenticateWithOOB options)
  let ?p = "[(''request_bearer_token'', optBool (oob_skipMFAForCurrentDevice options)),
             (''code'', JStr (oob_code options))]"
  from AuthenticateWithOOB assms post_exchange_fields
    [of r d c "''/_auth/mfa/oob/authenticate''"
      "makePayloadWithAuthenticationSessionToken w ?p" w]
  have "req_body r = JSON_stringify (JObj (makePayloadWithAuthenticationSessionToken w ?p))"
    by (simp add: authenticateWithOOB_def)
  then show ?thesis by (intro exI [of _ ?p]) simp
next
  case (AuthenticateWithRecoveryCode code)
  let ?p = "[(''code'', JStr code)]"
  from AuthenticateWithRecoveryCode assms post_exchange_fields
    [of r d c "''/_auth/mfa/recovery_code/authenticate''"
      "makePayloadWithAuthenticationSessionToken w ?p" w]
  have "req_body r = JSON_stringify (JObj (makePayloadWithAuthenticationSessionToken w ?p))"
    by (simp add: authenticateWithRecoveryCode_def)
  then show ?thesis by (intro exI [of _ ?p]) simp
next
  case (AuthenticateWithBearerToken bearerToken)
  let ?p = "[(''bearer_token'', optStr bearerToken)]"
  from AuthenticateWithBearerToken assms post_exchange_fields
    [of r d c "''/_auth/mfa/bearer_token/authenticate''"
      "makePayloadWithAuthenticationSessionToken w ?p" w]
  have "req_body r = JSON_stringify (JObj (makePayloadWithAuthenticationSessionToken w ?p))"
    by (simp add: authenticateWithBearerToken_def)
  then show ?thesis by (intro exI [of _ ?p]) simp
qed

lemma mfaStep_exchanges_nonempty:
  assumes "fetchFunction c = Some transport" "requestClass c" "\<forall>u. validURL d u"
    "prepareHeaders d c w = (Inr headers, w1)"
    "\<forall>kv \<in> set headers. isHeaderValue (normalizeValue (snd kv))"
  shows "exchanges (trace_of (mfaStep d c call w)) \<noteq> []"
  using post_exchanges_nonempty [OF assms]
  by (cases call)
    (simp_all add: activateTOTP_def authenticateWithTOTP_def triggerOOB_def activateOOB_def
      authenticateWithOOB_def authenticateWithRecoveryCode_def authenticateWithBearerToken_def)

text \<open>
  Claim C3. For each of the seven MFA-step calls and every argument: when the client
  holds an authentication session, every request the call exchanges has a JSON object
  as its body with the field \<^verbatim>\<open>authn_session_token\<close> equal to the token of that
  session; when it holds none, the body is a JSON object without that field. With a
  transport configured, urls that parse and headers prepared with valid values, the
  call does exchange a request.
\<close>

theorem mfa_step_session_token:
  "(authenticationSession w = Some session
      \<longrightarrow> (\<forall>r \<in> set (exchanges (trace_of (mfaStep d c call w))).
            carries r ''authn_session_token'' (JStr (token session))))
   \<and> (authenticationSession w = None
      \<longrightarrow> (\<forall>r \<in> set (exchanges (trace_of (mfaStep d c call w))).
            omits r ''authn_session_token''))
   \<and> (fetchFunction c = Some transport \<and> requestClass c \<and> (\<forall>u. validURL d u)
        \<and> prepareHeaders d c w = (Inr headers, w1)
        \<and> (\<forall>kv \<in> set headers. isHeaderValue (normalizeValue (snd kv)))
      \<longrightarrow> exchanges (trace_of (mfaStep d c call w)) \<noteq> [])"
  using mfaStep_body [of _ d c call w] carries_session [of _ w _ session]
    omits_no_session [of _ w _ "''authn_session_token''"]
    mfaStep_exchanges_nonempty [of c transport d w headers w1 call]
  by blast


text \<open>
  \<^verbatim>\<open>authenticateWithTOTP({otp: "123456"})\<close> with the session \<^verbatim>\<open>sess1\<close> pending, and with
  no session.
\<close>

theorem mfa_step_session_token_witness:
  "map req_body (exchanges (trace_of (mfaStep demoExternals (demoClient okTransport None)
       (AuthenticateWithTOTP \<lparr>totp_otp = ''123456'', totp_skipMFAForCurrentDevice = None\<rparr>)
       demoWorld)))
     = [Some (JObj [(''otp'', JStr ''123456''), (''authn_session_token'', JStr ''sess1'')])]
   \<and> carries (hd (exchanges (trace_of (mfaStep demoExternals (demoClient okTransport None)
       (AuthenticateWithTOTP \<lparr>totp_otp = ''123456'', totp_skipMFAForCurrentDevice = None\<rparr>)
       demoWorld)))) ''authn_session_token'' (JStr ''sess1'')
   \<and> map req_body (exchanges (trace_of (mfaStep demoExternals (demoClient okTransport None)
       (AuthenticateWithTOTP \<lparr>totp_otp = ''123456'', totp_skipMFAForCurrentDevice = None\<rparr>)
       (demoWorld\<lparr>authenticationSession := None\<rparr>))))
     = [Some (JObj [(''otp'', JStr ''123456'')])]
   \<and> omits (hd (exchanges (trace_of (mfaStep demoExternals (demoClient okTransport None)
       (AuthenticateWithTOTP \<lparr>totp_otp = ''123456'', totp_skipMFAForCurrentDevice = None\<rparr>)
       (demoWorld\<lparr>authenticationSession := None\<rparr>)))))
       ''authn_session_token''"
proof -
  let ?c = "demoClient okTransport None"
  let ?call = "AuthenticateWithTOTP \<lparr>totp_otp = ''123456'', totp_skipMFAForCurrentDevice = None\<rparr>"
  let ?h = "[(''x-skygear-api-key'', ''key''), (''authorization'', ''bearer old'')]"
  let ?s = "\<lparr>token = ''sess1'', step = ''mfa''\<rparr>"
  let ?w0 = "demoWorld\<lparr>authenticationSession := None\<rparr>"
  have cfg: "fetchFunction ?c = Some okTransport \<and> requestClass ?c"
    by (simp add: demoClient_def)
  have v: "\<forall>u. validURL demoExternals u" by (simp add: demoExternals_def)
  have hv: "\<forall>kv \<in> set ?h. isHeaderValue (normalizeValue (snd kv))"
    by (simp add: demo_values isHeaderValue_def)
  have p1: "prepareHeaders demoExternals ?c demoWorld = (Inr ?h, demoWorld)"
    by (simp add: demoWorld_def demo_prepareHeaders(1))
  have p0: "prepareHeaders demoExternals ?c ?w0 = (Inr ?h, ?w0)"
    by (simp add: demoWorld_def demo_prepareHeaders(1))
  have s1: "authenticationSession demoWorld = Some ?s"
    by (simp add: demoWorld_def)
  have s0: "authenticationSession ?w0 = None" by simp
  note t1 = mfa_step_session_token [of demoWorld ?s demoExternals ?c ?call okTransport ?h demoWorld]
  note t0 = mfa_step_session_token [of ?w0 ?s demoExternals ?c ?call okTransport ?h ?w0]
  have n1: "exchanges (trace_of (mfaStep demoExternals ?c ?call demoWorld)) \<noteq> []"
    using t1 cfg v p1 hv by blast
  have n0: "exchanges (trace_of (mfaStep demoExternals ?c ?call ?w0)) \<noteq> []"
    using t0 cfg v p0 hv by blast
  have a1: "\<forall>r \<in> set (exchanges (trace_of (mfaStep demoExternals ?c ?call demoWorld))).
              carries r ''authn_session_token'' (JStr (token ?s))"
    using t1 s1 by blast
  have a0: "\<forall>r \<in> set (exchanges (trace_of (mfaStep demoExternals ?c ?call ?w0))).
              omits r ''authn_session_token''"
    using t0 s0 by blast
  have a: "carries (hd (exchanges (trace_of (mfaStep demoExternals ?c ?call demoWorld))))
             ''authn_session_token'' (JStr ''sess1'')"
    using a1 n1 hd_in_set by fastforce
  have b: "omits (hd (exchanges (trace_of (mfaStep demoExternals ?c ?call ?w0))))
             ''authn_session_token''"
    using a0 n0 hd_in_set by blast
  have e1: "map req_body (exchanges (trace_of (mfaStep demoExternals ?c ?call demoWorld)))
     = [Some (JObj [(''otp'', JStr ''123456''), (''authn_session_token'', JStr ''sess1'')])]"
    by (simp add: authenticateWithTOTP_def demoWorld_def demo_post_bodies,
        simp add: JSON_stringify_def optBool_def makePayloadWithAuthenticationSessionToken_def)
  have e0: "map req_body (exchanges (trace_of (mfaStep demoExternals ?c ?call ?w0)))
     = [Some (JObj [(''otp'', JStr ''123456'')])]"
    by (simp add: authenticateWithTOTP_def demoWorld_def demo_post_bodies,
        simp add: JSON_stringify_def optBool_def makePayloadWithAuthenticationSessionToken_def)
  from a b e1 e0 show ?thesis by simp
qed

lemma enrollment_body:
  assumes "r \<in> set (exchanges (trace_of (enrollment d c call w)))"
  shows "\<exists>payload. ''authn_session_token'' \<notin> fst ` set payload
           \<and> req_body r = JSON_stringify
                 (JObj (if threadsSession call
                        then makePayloadWithAuthenticationSessionToken w payload
                        else payload))"
proof (cases call)
  case (CreateNewTOTP options)
  let ?p = "[(''display_name'', JStr (displayName options)),
             (''issuer'', JStr (issuer options)),
             (''account_name'', JStr (accountName options))]"
  from CreateNewTOTP assms post_exchange_fields
    [of r d c "''/_auth/mfa/totp/new''" "makePayloadWithAuthenticationSessionToken w ?p" w]
  have "req_body r = JSON_stringify (JObj (makePayloadWithAuthenticationSessionToken w ?p))"
    by (simp add: createNewTOTP_def)
  with CreateNewTOTP show ?thesis by (intro exI [of _ ?p]) simp
next
  case (CreateNewOOB options)
  let ?p = "[(''channel'', JStr (channel options)),
             (''phone'', optStr (phone options)),
             (''email'', optStr (email options))]"
  from CreateNewOOB assms post_exchange_fields
    [of r d c "''/_auth/mfa/oob/new''" "makePayloadWithAuthenticationSessionToken w ?p" w]
  have "req_body r = JSON_stringify (JObj (makePayloadWithAuthenticationSessionToken w ?p))"
    by (simp add: createNewOOB_def)
  with CreateNewOOB show ?thesis by (intro exI [of _ ?p]) simp
next
  case (EnrollActivateTOTP otp)
  let ?p = "[(''otp'', JStr otp)]"
  from EnrollActivateTOTP assms post_exchange_fields
    [of r d c "''/_auth/mfa/totp/activate''" "makePayloadWithAuthenticationSessionToken w ?p" w]
  have "req_body r = JSON_stringify (JObj (makePayloadWithAuthenticationSessionToken w ?p))"
    by (simp add: activateTOTP_def)
  with EnrollActivateTOTP show ?thesis by (intro exI [of _ ?p]) simp
next
  case (EnrollActivateOOB code)
  let ?p = "[(''code'', JStr code)]"
  from EnrollActivateOOB assms post_exchange_fields
    [of r d c "''/_auth/mfa/oob/activate''" "makePayloadWithAuthenticationSessionToken w ?p" w]
  have "req_body r = JSON_stringify (JObj (makePayloadWithAuthenticationSessionToken w ?p))"
    by (simp add: activateOOB_def)
  with EnrollActivateOOB show ?thesis by (intro exI [of _ ?p]) simp
next
  case GetAuthenticators
  from GetAuthenticators assms post_exchange_fields
    [of r d c "''/_auth/mfa/authenticator/list''"
      "makePayloadWithAuthenticationSessionToken w []" w]
  have "req_body r = JSON_stringify (JObj (makePayloadWithAuthenticationSessionToken w []))"
    by (simp add: getAuthenticators_def)
  with GetAuthenticators show ?thesis by (intro exI [of _ "[]"]) simp
next
  case (DeleteAuthenticator ident)
  let ?p = "[(''authenticator_id'', JStr ident)]"
  from DeleteAuthenticator assms post_exchange_fields
    [of r d c "''/_auth/mfa/authenticator/delete''" ?p w]
  have "req_body r = JSON_stringify (JObj ?p)"
    by (simp add: deleteAuthenticator_def)
  with DeleteAuthenticator show ?thesis by (intro exI [of _ ?p]) simp
next
  case ListRecoveryCode
  from ListRecoveryCode assms post_exchange_fields
    [of r d c "''/_auth/mfa/recovery_code/list''" "[]" w]
  have "req_body r = JSON_stringify (JObj [])"
    by (simp add: listRecoveryCode_def)
  with ListRecoveryCode show ?thesis by (intro exI [of _ "[]"]) simp
next
  case RegenerateRecoveryCode
  from RegenerateRecoveryCode assms post_exchange_fields
    [of r d c "''/_auth/mfa/recovery_code/regenerate''" "[]" w]
  have "req_body r = JSON_stringify (JObj [])"
    by (simp add: regenerateRecoveryCode_def)
  with RegenerateRecoveryCode show ?thesis by (intro exI [of _ "[]"]) simp
qed

lemma enrollment_exchanges_nonempty:
  assumes "fetchFunction c = Some transport" "requestClass c" "\<forall>u. validURL d u"
    "prepareHeaders d c w = (Inr headers, w1)"
    "\<forall>kv \<in> set headers. isHeaderValue (normalizeValue (snd kv))"
  shows "exchanges (trace_of (enrollment d c call w)) \<noteq> []"
  using post_exchanges_nonempty [OF assms]
  by (cases call)
    (simp_all add: createNewTOTP_def createNewOOB_def activateTOTP_def activateOOB_def
      getAuthenticators_def deleteAuthenticator_def listRecoveryCode_def
      regenerateRecoveryCode_def)

text \<open>
  Claim C6, as amended. Create-new-TOTP, create-new-OOB, activate-TOTP, activate-OOB
  and list-authenticators put the token of a held authentication session into their
  payload under \<^verbatim>\<open>authn_session_token\<close> and leave the field out when none is held.
  Delete-authenticator, recovery-code list and recovery-code regenerate send their
  payload without that field, whether or not a session is held.
\<close>

theorem enrollment_session_token:
  "(threadsSession call \<and> authenticationSession w = Some session
      \<longrightarrow> (\<forall>r \<in> set (exchanges (trace_of (enrollment d c call w))).
            carries r ''authn_session_token'' (JStr (token session))))
   \<and> (threadsSession call \<and> authenticationSession w = None
      \<longrightarrow> (\<forall>r \<in> set (exchanges (trace_of (enrollment d c call w))).
            omits r ''authn_session_token''))
   \<and> (\<not> threadsSession call
      \<longrightarrow> (\<forall>r \<in> set (exchanges (trace_of (enrollment d c call w))).
            omits r ''authn_session_token''))
   \<and> (fetchFunction c = Some transport \<and> requestClass c \<and> (\<forall>u. validURL d u)
        \<and> prepareHeaders d c w = (Inr headers, w1)
        \<and> (\<forall>kv \<in> set headers. isHeaderValue (normalizeValue (snd kv)))
      \<longrightarrow> exchanges (trace_of (enrollment d c call w)) \<noteq> [])"
proof -
  have a: "carries r ''authn_session_token'' (JStr (token session))"
    if "threadsSession call" "authenticationSession w = Some session"
      "r \<in> set (exchanges (trace_of (enrollment d c call w)))" for r
    using enrollment_body [OF that(3)] that(1,2) carries_session [of r w _ session] by auto
  have b: "omits r ''authn_session_token''"
    if "threadsSession call" "authenticationSession w = None"
      "r \<in> set (exchanges (trace_of (enrollment d c call w)))" for r
    using enrollment_body [OF that(3)] that(1,2)
      omits_no_session [of r w _ "''authn_session_token''"] by auto
  have c: "omits r ''authn_session_token''"
    if "\<not> threadsSession call"
      "r \<in> set (exchanges (trace_of (enrollment d c call w)))" for r
    using enrollment_body [OF that(2)] that(1) omits_plain [of r _ "''authn_session_token''"]
    by auto
  from a b c enrollment_exchanges_nonempty [of c transport d w headers w1 call]
  show ?thesis by blast
qed

text \<open>
  With the session \<^verbatim>\<open>sess1\<close> held, list-authenticators carries the token and
  recovery-code list does not; with no session, list-authenticators has no such field.
\<close>

theorem enrollment_session_token_witness:
  "carries (hd (exchanges (trace_of (enrollment demoExternals (demoClient okTransport None)
       GetAuthenticators demoWorld)))) ''authn_session_token'' (JStr ''sess1'')
   \<and> omits (hd (exchanges (trace_of (enrollment demoExternals (demoClient okTransport None)
       GetAuthenticators (demoWorld\<lparr>authenticationSession := None\<rparr>)))))
       ''authn_session_token''
   \<and> omits (hd (exchanges (trace_of (enrollment demoExternals (demoClient okTransport None)
       ListRecoveryCode demoWorld)))) ''authn_session_token''"
proof -
  let ?c = "demoClient okTransport None"
  let ?h = "[(''x-skygear-api-key'', ''key''), (''authorization'', ''bearer old'')]"
  let ?s = "\<lparr>token = ''sess1'', step = ''mfa''\<rparr>"
  let ?w0 = "demoWorld\<lparr>authenticationSession := None\<rparr>"
  have cfg: "fetchFunction ?c = Some okTransport \<and> requestClass ?c"
    by (simp add: demoClient_def)
  have v: "\<forall>u. validURL demoExternals u" by (simp add: demoExternals_def)
  have hv: "\<forall>kv \<in> set ?h. isHeaderValue (normalizeValue (snd kv))"
    by (simp add: demo_values isHeaderValue_def)
  have p1: "prepareHeaders demoExternals ?c demoWorld = (Inr ?h, demoWorld)"
    by (simp add: demoWorld_def demo_prepareHeaders(1))
  have p0: "prepareHeaders demoExternals ?c ?w0 = (Inr ?h, ?w0)"
    by (simp add: demoWorld_def demo_prepareHeaders(1))
  have s1: "authenticationSession demoWorld = Some ?s"
    by (simp add: demoWorld_def)
  have s0: "authenticationSession ?w0 = None" by simp
  have g: "threadsSession GetAuthenticators" by simp
  have l: "\<not> threadsSession ListRecoveryCode" by simp
  note tg1 = enrollment_session_token [of GetAuthenticators demoWorld ?s demoExternals ?c
      okTransport ?h demoWorld]
  note tg0 = enrollment_session_token [of GetAuthenticators ?w0 ?s demoExternals ?c
      okTransport ?h ?w0]
  note tl1 = enrollment_session_token [of ListRecoveryCode demoWorld ?s demoExternals ?c
      okTransport ?h demoWorld]
  have ng1: "exchanges (trace_of (enrollment demoExternals ?c GetAuthenticators demoWorld)) \<noteq> []"
    using tg1 cfg v p1 hv by blast
  have ng0: "exchanges (trace_of (enrollment demoExternals ?c GetAuthenticators ?w0)) \<noteq> []"
    using tg0 cfg v p0 hv by blast
  have nl1: "exchanges (trace_of (enrollment demoExternals ?c ListRecoveryCode demoWorld)) \<noteq> []"
    using tl1 cfg v p1 hv by blast
  have ag1: "\<forall>r \<in> set (exchanges (trace_of (enrollment demoExternals ?c GetAuthenticators
               demoWorld))). carries r ''authn_session_token'' (JStr (token ?s))"
    using tg1 g s1 by blast
  have ag0: "\<forall>r \<in> set (exchanges (trace_of (enrollment demoExternals ?c GetAuthenticators
               ?w0))). omits r ''authn_session_token''"
    using tg0 g s0 by blast
  have al1: "\<forall>r \<in> set (exchanges (trace_of (enrollment demoExternals ?c ListRecoveryCode
               demoWorld))). omits r ''authn_session_token''"
    using tl1 l by blast
  have a: "carries (hd (exchanges (trace_of (enrollment demoExternals ?c GetAuthenticators
             demoWorld)))) ''authn_session_token'' (JStr ''sess1'')"
    using ag1 ng1 hd_in_set by fastforce
  have b: "omits (hd (exchanges (trace_of (enrollment demoExternals ?c GetAuthenticators
             ?w0)))) ''authn_session_token''"
    using ag0 ng0 hd_in_set by blast
  have c: "omits (hd (exchanges (trace_of (enrollment demoExternals ?c ListRecoveryCode
             demoWorld)))) ''authn_session_token''"
    using al1 nl1 hd_in_set by blast
  from a b c show ?thesis by simp
qed

text \<open>
  Claim C6 as it was stated fails for three of the eight calls: with the session
  \<^verbatim>\<open>sess1\<close> held, delete-authenticator sends only the authenticator id, and the two
  recovery-code calls send the empty object.
\<close>

theorem enrollment_without_token_counterexample:
  "authenticationSession demoWorld = Some \<lparr>token = ''sess1'', step = ''mfa''\<rparr>
   \<and> map req_body (exchanges (trace_of (enrollment demoExternals (demoClient okTransport None)
       (DeleteAuthenticator ''a1'') demoWorld)))
     = [Some (JObj [(''authenticator_id'', JStr ''a1'')])]
   \<and> map req_body (exchanges (trace_of (enrollment demoExternals (demoClient okTransport None)
       ListRecoveryCode demoWorld)))
     = [Some (JObj [])]
   \<and> map req_body (exchanges (trace_of (enrollment demoExternals (demoClient okTransport None)
       RegenerateRecoveryCode demoWorld)))
     = [Some (JObj [])]"
  by (simp add: deleteAuthenticator_def listRecoveryCode_def regenerateRecoveryCode_def
        demoWorld_def demo_post_bodies,
      simp add: JSON_stringify_def)

section \<open>Login identifiers\<close>

lemma extractSingleKeyValue_rejects:
  "length (Object_keys obj) \<noteq> 1 \<Longrightarrow> extractSingleKeyValue obj msg = Inl (Error msg)"
  by (simp add: extractSingleKeyValue_def)

lemma extractSingleKeyValue_single:
  "extractSingleKeyValue [kv] msg = Inr kv"
  by (simp add: extractSingleKeyValue_def Object_keys_def)

lemma extractSingleKeyValue_accepts:
  "length (Object_keys obj) = 1 \<Longrightarrow> \<exists>kv. obj = [kv] \<and> extractSingleKeyValue obj msg = Inr kv"
  by (cases obj) (auto simp: extractSingleKeyValue_def Object_keys_def Let_def)

lemma extractSingleKeyValue_cases:
  "extractSingleKeyValue obj msg = Inl (Error msg)
   \<or> (\<exists>kv. obj = [kv] \<and> extractSingleKeyValue obj msg = Inr kv)"
  by (cases obj) (auto simp: extractSingleKeyValue_def Object_keys_def Let_def)

lemma mapE_extract_rejects:
  "\<exists>x \<in> set xs. length (Object_keys x) \<noteq> 1 \<Longrightarrow>
   mapE (\<lambda>loginID. extractSingleKeyValue loginID msg) xs = Inl (Error msg)"
proof (induction xs)
  case Nil
  then show ?case by simp
next
  case (Cons x xs)
  show ?case
  proof (cases "length (Object_keys x) \<noteq> 1")
    case True
    then show ?thesis by (simp add: extractSingleKeyValue_rejects)
  next
    case False
    with Cons.prems have "\<exists>y \<in> set xs. length (Object_keys y) \<noteq> 1" by auto
    from Cons.IH [OF this] extractSingleKeyValue_cases [of x msg] show ?thesis by auto
  qed
qed

lemma mapE_extract_singles:
  "mapE (\<lambda>loginID. extractSingleKeyValue loginID msg) (map (\<lambda>kv. [kv]) kvs) = Inr kvs"
  by (induction kvs) (simp_all add: extractSingleKeyValue_single)

lemma wire_pairs:
  "map (\<lambda>x. if x = JUndefined then JNull else wire x) (map (\<lambda>kv. JObj [(''key'', JStr (fst kv)), (''value'', JStr (snd kv))]) kvs) = (map (\<lambda>kv. JObj [(''key'', JStr (fst kv)), (''value'', JStr (snd kv))]) kvs)"
  by (induction kvs) simp_all

text \<open>
  Claim C9. An identifier object whose number of keys is not 1 makes
  \<open>removeLoginID\<close>, \<open>addLoginID\<close> (for any of its arguments) and \<open>updateLoginID\<close>
  (for the old or the new identifier) fail with an error, with no event observed and
  the world unchanged. An object with one key is sent as the object with the two
  fields \<^verbatim>\<open>key\<close> and \<^verbatim>\<open>value\<close>, holding its key and its value:
  \<open>removeLoginID\<close> posts that object, \<open>addLoginID\<close> posts the array of these objects
  under \<^verbatim>\<open>login_ids\<close>, \<open>updateLoginID\<close> posts the two objects under
  \<^verbatim>\<open>old_login_id\<close> and \<^verbatim>\<open>new_login_id\<close>. Every request the call exchanges has that
  payload as its body, and with a transport configured, urls that parse and headers
  prepared with valid values a request is exchanged.
\<close>

theorem login_id_single_key:
  "(length (Object_keys loginID) \<noteq> 1
      \<longrightarrow> removeLoginID d c loginID w
          = (Inl (Error ''must provide exactly one login ID''), [], w))
   \<and> ((\<exists>x \<in> set loginIDs. length (Object_keys x) \<noteq> 1)
      \<longrightarrow> addLoginID d c loginIDs w
          = (Inl (Error ''must provide exactly one login ID''), [], w))
   \<and> (length (Object_keys oldLoginID) \<noteq> 1
      \<longrightarrow> updateLoginID d c oldLoginID newLoginID w
          = (Inl (Error ''must provide exactly one old login ID''), [], w))
   \<and> (length (Object_keys oldLoginID) = 1 \<and> length (Object_keys newLoginID) \<noteq> 1
      \<longrightarrow> updateLoginID d c oldLoginID newLoginID w
          = (Inl (Error ''must provide exactly one new login ID''), [], w))
   \<and> removeLoginID d c [kv] w
       = post d c ''/_auth/login_id/remove''
           (jsonOnly [(''key'', JStr (fst kv)), (''value'', JStr (snd kv))]) w
   \<and> addLoginID d c (map (\<lambda>kv. [kv]) kvs) w
       = post d c ''/_auth/login_id/add''
           (jsonOnly [(''login_ids'', JArr (map (\<lambda>kv. JObj [(''key'', JStr (fst kv)), (''value'', JStr (snd kv))]) kvs))]) w
   \<and> updateLoginID d c [old] [new] w
       = postAndReturnAuthResponse d c ''/_auth/login_id/update''
           (jsonOnly [(''old_login_id'', JObj [(''key'', JStr (fst old)), (''value'', JStr (snd old))]), (''new_login_id'', JObj [(''key'', JStr (fst new)), (''value'', JStr (snd new))])]) w
   \<and> (\<forall>r \<in> set (exchanges (trace_of (removeLoginID d c [kv] w))).
         req_body r = Some (JObj [(''key'', JStr (fst kv)), (''value'', JStr (snd kv))]))
   \<and> (\<forall>r \<in> set (exchanges (trace_of (addLoginID d c (map (\<lambda>kv. [kv]) kvs) w))).
         req_body r = Some (JObj [(''login_ids'', JArr (map (\<lambda>kv. JObj [(''key'', JStr (fst kv)), (''value'', JStr (snd kv))]) kvs))]))
   \<and> (\<forall>r \<in> set (exchanges (trace_of (updateLoginID d c [old] [new] w))).
         req_body r
           = Some (JObj [(''old_login_id'', JObj [(''key'', JStr (fst old)), (''value'', JStr (snd old))]), (''new_login_id'', JObj [(''key'', JStr (fst new)), (''value'', JStr (snd new))])]))
   \<and> (fetchFunction c = Some transport \<and> requestClass c \<and> (\<forall>u. validURL d u)
        \<and> prepareHeaders d c w = (Inr headers, w1)
        \<and> (\<forall>kv \<in> set headers. isHeaderValue (normalizeValue (snd kv)))
      \<longrightarrow> exchanges (trace_of (removeLoginID d c [kv] w)) \<noteq> []
          \<and> exchanges (trace_of (addLoginID d c (map (\<lambda>kv. [kv]) kvs) w)) \<noteq> []
          \<and> exchanges (trace_of (updateLoginID d c [old] [new] w)) \<noteq> [])"
proof -
  have r0: "removeLoginID d c loginID w
          = (Inl (Error ''must provide exactly one login ID''), [], w)"
    if "length (Object_keys loginID) \<noteq> 1"
    using that by (simp add: removeLoginID_def extractSingleKeyValue_rejects)
  have a0: "addLoginID d c loginIDs w
          = (Inl (Error ''must provide exactly one login ID''), [], w)"
    if "\<exists>x \<in> set loginIDs. length (Object_keys x) \<noteq> 1"
    using mapE_extract_rejects [OF that] by (simp add: addLoginID_def)
  have u0: "updateLoginID d c oldLoginID newLoginID w
          = (Inl (Error ''must provide exactly one old login ID''), [], w)"
    if "length (Object_keys oldLoginID) \<noteq> 1"
    using that by (simp add: updateLoginID_def extractSingleKeyValue_rejects)
  have u1: "updateLoginID d c oldLoginID newLoginID w
          = (Inl (Error ''must provide exactly one new login ID''), [], w)"
    if "length (Object_keys oldLoginID) = 1" "length (Object_keys newLoginID) \<noteq> 1"
    using extractSingleKeyValue_accepts [OF that(1), of "''must provide exactly one old login ID''"]
      extractSingleKeyValue_rejects [OF that(2), of "''must provide exactly one new login ID''"]
    by (auto simp: updateLoginID_def)
  have r1: "removeLoginID d c [kv] w
       = post d c ''/_auth/login_id/remove''
           (jsonOnly [(''key'', JStr (fst kv)), (''value'', JStr (snd kv))]) w"
    by (simp add: removeLoginID_def extractSingleKeyValue_single)
  have a1: "addLoginID d c (map (\<lambda>kv. [kv]) kvs) w
       = post d c ''/_auth/login_id/add''
           (jsonOnly [(''login_ids'', JArr (map (\<lambda>kv. JObj [(''key'', JStr (fst kv)), (''value'', JStr (snd kv))]) kvs))]) w"
    by (simp add: addLoginID_def mapE_extract_singles)
  have u2: "updateLoginID d c [old] [new] w
       = postAndReturnAuthResponse d c ''/_auth/login_id/update''
           (jsonOnly [(''old_login_id'', JObj [(''key'', JStr (fst old)), (''value'', JStr (snd old))]), (''new_login_id'', JObj [(''key'', JStr (fst new)), (''value'', JStr (snd new))])]) w"
    by (simp add: updateLoginID_def extractSingleKeyValue_single)
  have rb: "req_body r = Some (JObj [(''key'', JStr (fst kv)), (''value'', JStr (snd kv))])"
    if "r \<in> set (exchanges (trace_of (removeLoginID d c [kv] w)))" for r
    using post_exchange_fields [of r d c "''/_auth/login_id/remove''"
        "[(''key'', JStr (fst kv)), (''value'', JStr (snd kv))]" w] that
    by (simp add: r1 JSON_stringify_def)
  have ab: "req_body r = Some (JObj [(''login_ids'', JArr (map (\<lambda>kv. JObj [(''key'', JStr (fst kv)), (''value'', JStr (snd kv))]) kvs))])"
    if "r \<in> set (exchanges (trace_of (addLoginID d c (map (\<lambda>kv. [kv]) kvs) w)))" for r
    using post_exchange_fields [of r d c "''/_auth/login_id/add''"
        "[(''login_ids'', JArr (map (\<lambda>kv. JObj [(''key'', JStr (fst kv)), (''value'', JStr (snd kv))]) kvs))]" w] that wire_pairs [of kvs]
    by (simp add: a1 JSON_stringify_def)
  have ub: "req_body r
           = Some (JObj [(''old_login_id'', JObj [(''key'', JStr (fst old)), (''value'', JStr (snd old))]), (''new_login_id'', JObj [(''key'', JStr (fst new)), (''value'', JStr (snd new))])])"
    if "r \<in> set (exchanges (trace_of (updateLoginID d c [old] [new] w)))" for r
    using post_exchange_fields [of r d c "''/_auth/login_id/update''"
        "[(''old_login_id'', JObj [(''key'', JStr (fst old)), (''value'', JStr (snd old))]), (''new_login_id'', JObj [(''key'', JStr (fst new)), (''value'', JStr (snd new))])]" w] that
    by (simp add: u2 JSON_stringify_def)
  have ne: "exchanges (trace_of (removeLoginID d c [kv] w)) \<noteq> []
          \<and> exchanges (trace_of (addLoginID d c (map (\<lambda>kv. [kv]) kvs) w)) \<noteq> []
          \<and> exchanges (trace_of (updateLoginID d c [old] [new] w)) \<noteq> []"
    if "fetchFunction c = Some transport" "requestClass c" "\<forall>u. validURL d u"
      "prepareHeaders d c w = (Inr headers, w1)"
      "\<forall>kv \<in> set headers. isHeaderValue (normalizeValue (snd kv))"
    using post_exchanges_nonempty [OF that] by (simp add: r1 a1 u2)
  from r0 a0 u0 u1 r1 a1 u2 rb ab ub ne show ?thesis by blast
qed

text \<open>
  Rejected: two keys, an argument with no key, a new identifier with no key. Sent:
  \<^verbatim>\<open>removeLoginID({email: "a@b.com"})\<close>,
  \<^verbatim>\<open>addLoginID({email: "a@b.com"}, {phone: "+100"})\<close> and
  \<^verbatim>\<open>updateLoginID({email: "a@b.com"}, {email: "c@d.com"})\<close>, each in one request.
\<close>

theorem login_id_single_key_witness:
  "removeLoginID demoExternals (demoClient okTransport None)
       [(''email'', ''a@b.com''), (''phone'', ''+100'')] demoWorld
     = (Inl (Error ''must provide exactly one login ID''), [], demoWorld)
   \<and> addLoginID demoExternals (demoClient okTransport None)
       [[(''email'', ''a@b.com'')], []] demoWorld
     = (Inl (Error ''must provide exactly one login ID''), [], demoWorld)
   \<and> updateLoginID demoExternals (demoClient okTransport None)
       [(''email'', ''a@b.com'')] [] demoWorld
     = (Inl (Error ''must provide exactly one new login ID''), [], demoWorld)
   \<and> req_body (hd (exchanges (trace_of (removeLoginID demoExternals
       (demoClient okTransport None) [(''email'', ''a@b.com'')] demoWorld))))
     = Some (JObj [(''key'', JStr ''email''), (''value'', JStr ''a@b.com'')])
   \<and> req_body (hd (exchanges (trace_of (addLoginID demoExternals
       (demoClient okTransport None) [[(''email'', ''a@b.com'')], [(''phone'', ''+100'')]]
       demoWorld))))
     = Some (JObj [(''login_ids'',
          JArr [JObj [(''key'', JStr ''email''), (''value'', JStr ''a@b.com'')],
                JObj [(''key'', JStr ''phone''), (''value'', JStr ''+100'')]])])
   \<and> req_body (hd (exchanges (trace_of (updateLoginID demoExternals
       (demoClient okTransport None) [(''email'', ''a@b.com'')] [(''email'', ''c@d.com'')]
       demoWorld))))
     = Some (JObj [(''old_login_id'',
                    JObj [(''key'', JStr ''email''), (''value'', JStr ''a@b.com'')]),
                   (''new_login_id'',
                    JObj [(''key'', JStr ''email''), (''value'', JStr ''c@d.com'')])])
   \<and> map req_body (exchanges (trace_of (removeLoginID demoExternals
       (demoClient okTransport None) [(''email'', ''a@b.com'')] demoWorld)))
     = [Some (JObj [(''key'', JStr ''email''), (''value'', JStr ''a@b.com'')])]
   \<and> map req_body (exchanges (trace_of (addLoginID demoExternals
       (demoClient okTransport None) [[(''email'', ''a@b.com'')], [(''phone'', ''+100'')]]
       demoWorld)))
     = [Some (JObj [(''login_ids'',
          JArr [JObj [(''key'', JStr ''email''), (''value'', JStr ''a@b.com'')],
                JObj [(''key'', JStr ''phone''), (''value'', JStr ''+100'')]])])]
   \<and> map req_body (exchanges (trace_of (updateLoginID demoExternals
       (demoClient okTransport None) [(''email'', ''a@b.com'')] [(''email'', ''c@d.com'')]
       demoWorld)))
     = [Some (JObj [(''old_login_id'',
                     JObj [(''key'', JStr ''email''), (''value'', JStr ''a@b.com'')]),
                    (''new_login_id'',
                     JObj [(''key'', JStr ''email''), (''value'', JStr ''c@d.com'')])])]"
proof -
  let ?c = "demoClient okTransport None"
  let ?h = "[(''x-skygear-api-key'', ''key''), (''authorization'', ''bearer old'')]"
  let ?e = "(''email'', ''a@b.com'')"
  let ?p = "(''phone'', ''+100'')"
  let ?n = "(''email'', ''c@d.com'')"
  note t = login_id_single_key [of "[?e, ?p]" demoExternals ?c demoWorld "[[?e], []]" "[?e]"
      "[]" ?e "[?e, ?p]" ?e ?n okTransport ?h demoWorld]
  have cfg: "fetchFunction ?c = Some okTransport \<and> requestClass ?c"
    by (simp add: demoClient_def)
  have v: "\<forall>u. validURL demoExternals u" by (simp add: demoExternals_def)
  have hv: "\<forall>kv \<in> set ?h. isHeaderValue (normalizeValue (snd kv))"
    by (simp add: demo_values isHeaderValue_def)
  have p: "prepareHeaders demoExternals ?c demoWorld = (Inr ?h, demoWorld)"
    by (simp add: demoWorld_def demo_prepareHeaders(1))
  have k2: "length (Object_keys [?e, ?p]) \<noteq> 1"
    and k0: "\<exists>x \<in> set [[?e], []]. length (Object_keys x) \<noteq> 1"
    and k1: "length (Object_keys [?e]) = 1
             \<and> length (Object_keys ([] :: (string \<times> string) list)) \<noteq> 1"
    by (simp_all add: Object_keys_def)
  from t k2 have a: "removeLoginID demoExternals ?c [?e, ?p] demoWorld
     = (Inl (Error ''must provide exactly one login ID''), [], demoWorld)" by blast
  from t k0 have b: "addLoginID demoExternals ?c [[?e], []] demoWorld
     = (Inl (Error ''must provide exactly one login ID''), [], demoWorld)" by blast
  from t k1 have c: "updateLoginID demoExternals ?c [?e] [] demoWorld
     = (Inl (Error ''must provide exactly one new login ID''), [], demoWorld)" by blast
  from t cfg v p hv have ne:
    "exchanges (trace_of (removeLoginID demoExternals ?c [?e] demoWorld)) \<noteq> []
     \<and> exchanges (trace_of (addLoginID demoExternals ?c (map (\<lambda>kv. [kv]) [?e, ?p])
           demoWorld)) \<noteq> []
     \<and> exchanges (trace_of (updateLoginID demoExternals ?c [?e] [?n] demoWorld)) \<noteq> []"
    by blast
  from t have rb: "\<forall>r \<in> set (exchanges (trace_of (removeLoginID demoExternals ?c [?e]
        demoWorld))).
      req_body r = Some (JObj [(''key'', JStr (fst ?e)), (''value'', JStr (snd ?e))])"
    by blast
  from t have ab: "\<forall>r \<in> set (exchanges (trace_of (addLoginID demoExternals ?c
        (map (\<lambda>kv. [kv]) [?e, ?p]) demoWorld))).
      req_body r = Some (JObj [(''login_ids'',
        JArr (map (\<lambda>kv. JObj [(''key'', JStr (fst kv)), (''value'', JStr (snd kv))])
               [?e, ?p]))])"
    by blast
  from t have ub: "\<forall>r \<in> set (exchanges (trace_of (updateLoginID demoExternals ?c [?e] [?n]
        demoWorld))).
      req_body r = Some (JObj
        [(''old_login_id'', JObj [(''key'', JStr (fst ?e)), (''value'', JStr (snd ?e))]),
         (''new_login_id'', JObj [(''key'', JStr (fst ?n)), (''value'', JStr (snd ?n))])])"
    by blast
  from ne rb have d: "req_body (hd (exchanges (trace_of (removeLoginID demoExternals ?c [?e]
       demoWorld))))
     = Some (JObj [(''key'', JStr ''email''), (''value'', JStr ''a@b.com'')])"
    by simp
  from ne ab have e: "req_body (hd (exchanges (trace_of (addLoginID demoExternals ?c
       [[?e], [?p]] demoWorld))))
     = Some (JObj [(''login_ids'',
          JArr [JObj [(''key'', JStr ''email''), (''value'', JStr ''a@b.com'')],
                JObj [(''key'', JStr ''phone''), (''value'', JStr ''+100'')]])])"
    by simp
  from ne ub have f: "req_body (hd (exchanges (trace_of (updateLoginID demoExternals ?c
       [?e] [?n] demoWorld))))
     = Some (JObj [(''old_login_id'',
                    JObj [(''key'', JStr ''email''), (''value'', JStr ''a@b.com'')]),
                   (''new_login_id'',
                    JObj [(''key'', JStr ''email''), (''value'', JStr ''c@d.com'')])])"
    by simp
  have g: "map req_body (exchanges (trace_of (removeLoginID demoExternals ?c [?e] demoWorld)))
     = [Some (JObj [(''key'', JStr ''email''), (''value'', JStr ''a@b.com'')])]"
    by (simp add: removeLoginID_def extractSingleKeyValue_single demoWorld_def
          demo_post_bodies,
        simp add: JSON_stringify_def)
  have h: "map req_body (exchanges (trace_of (addLoginID demoExternals ?c [[?e], [?p]]
       demoWorld)))
     = [Some (JObj [(''login_ids'',
          JArr [JObj [(''key'', JStr ''email''), (''value'', JStr ''a@b.com'')],
                JObj [(''key'', JStr ''phone''), (''value'', JStr ''+100'')]])])]"
    by (simp add: addLoginID_def extractSingleKeyValue_single demoWorld_def
          demo_post_bodies,
        simp add: JSON_stringify_def)
  have i: "map req_body (exchanges (trace_of (updateLoginID demoExternals ?c [?e] [?n]
       demoWorld)))
     = [Some (JObj [(''old_login_id'',
                     JObj [(''key'', JStr ''email''), (''value'', JStr ''a@b.com'')]),
                    (''new_login_id'',
                     JObj [(''key'', JStr ''email''), (''value'', JStr ''c@d.com'')])])]"
    by (simp add: updateLoginID_def extractSingleKeyValue_single demoWorld_def
          demo_post_bodies,
        simp add: JSON_stringify_def)
  from a b c d e f g h i show ?thesis by simp
qed

end
